theory Spec2Isabelle
  imports Complex_Main "HOL-Library.Sublist"
begin

section \<open>Python strings\<close>

text \<open>
  A Python \<^verbatim>\<open>str\<close> is modelled as an Isabelle \<^typ>\<open>string\<close>: a list of code points
  below 256.  On this domain \<^verbatim>\<open>str.lower()\<close> changes exactly the letters A-Z and the
  Latin-1 capitals (192-222 except the multiplication sign 215), each by adding 32.
\<close>

definition lower_char :: "char \<Rightarrow> char" where
  "lower_char c = (let n = (of_char c :: nat) in
     if (65 \<le> n \<and> n \<le> 90) \<or> (192 \<le> n \<and> n \<le> 222 \<and> n \<noteq> 215)
     then char_of (n + 32) else c)"

definition lower :: "string \<Rightarrow> string" where
  "lower s = map lower_char s"

text \<open>\<^verbatim>\<open>p in s\<close> for two strings: \<open>p\<close> occurs in \<open>s\<close> as a contiguous substring.\<close>

fun contains :: "string \<Rightarrow> string \<Rightarrow> bool" where
  "contains p [] = (p = [])"
| "contains p (c # cs) = (prefix p (c # cs) \<or> contains p cs)"

text \<open>\<^verbatim>\<open>any(k in s for k in ks)\<close>.\<close>

definition any_in :: "string list \<Rightarrow> string \<Rightarrow> bool" where
  "any_in ks s = list_ex (\<lambda>k. contains k s) ks"

section \<open>Status transitions\<close>

text \<open>
  One entry of the backend's transition list: \<^verbatim>\<open>{"id": ..., "name": ..., "to": {"name": ...}}\<close>.
\<close>

record transition =
  tid :: string
  tname :: string
  to_status :: string

text \<open>
  What an action does once the transition list has been fetched.  \<open>ErrorNoTransitions\<close>
  and \<open>WarnNoMatch\<close> are the two message boxes of the modular manager, \<open>Cancelled\<close> is a
  declined confirmation, \<open>Selected t\<close> is the transition whose id is posted to the
  backend, and \<open>Silent\<close> is a return without any message.
\<close>

datatype action_outcome =
  ErrorNoTransitions
  | WarnNoMatch "string list"
  | Cancelled
  | Selected transition
  | Silent

text \<open>
  \<^verbatim>\<open>TicketOperationsManager.close_ticket\<close> (inner \<^verbatim>\<open>do_close\<close>), ticket_operations.py.
  \<open>transitions_data\<close> is \<open>None\<close> when the request failed or carried no transition list;
  \<open>choice\<close> is the answer of \<^verbatim>\<open>askyesnocancel\<close> (\<open>Some True\<close> yes, \<open>Some False\<close> no,
  \<open>None\<close> cancel), read only when more than one transition matches.
\<close>

definition close_ticket :: "transition list option \<Rightarrow> bool option \<Rightarrow> action_outcome" where
  "close_ticket transitions_data choice =
     (case transitions_data of
        None \<Rightarrow> ErrorNoTransitions
      | Some transitions \<Rightarrow>
          (let close_transitions =
                 filter (\<lambda>t. any_in [''close'', ''done'', ''complete'', ''resolve''] (lower (tname t)))
                   transitions
           in if close_transitions = [] then WarnNoMatch (map tname transitions)
              else if length close_transitions > 1 \<and> choice \<noteq> Some True then Cancelled
              else Selected (hd close_transitions)))"

text \<open>\<^verbatim>\<open>TicketOperationsManager.resolve_ticket\<close> (inner \<^verbatim>\<open>do_resolve\<close>).\<close>

definition resolve_ticket :: "transition list option \<Rightarrow> action_outcome" where
  "resolve_ticket transitions_data =
     (case transitions_data of
        None \<Rightarrow> ErrorNoTransitions
      | Some transitions \<Rightarrow>
          (let resolve_transitions =
                 filter (\<lambda>t. contains ''resolve'' (lower (tname t))) transitions
           in if resolve_transitions = [] then WarnNoMatch (map tname transitions)
              else Selected (hd resolve_transitions)))"

text \<open>
  \<^verbatim>\<open>open_ticket\<close> of JiraTicketGUI_enhanced.py, the reopen action.  It has no message
  for an empty candidate list: it returns silently.
\<close>

definition open_ticket :: "transition list option \<Rightarrow> action_outcome" where
  "open_ticket transitions_data =
     (case transitions_data of
        None \<Rightarrow> Silent
      | Some transitions \<Rightarrow>
          (let open_transitions =
                 filter (\<lambda>t. any_in [''open'', ''reopen'', ''start''] (lower (tname t))) transitions
           in if open_transitions \<noteq> [] then Selected (hd open_transitions) else Silent))"

text \<open>The transition set of the scenario.\<close>

definition start_progress :: transition where
  "start_progress = \<lparr>tid = ''11'', tname = ''Start Progress'', to_status = ''In Progress''\<rparr>"

definition resolve_issue :: transition where
  "resolve_issue = \<lparr>tid = ''21'', tname = ''Resolve Issue'', to_status = ''Resolved''\<rparr>"

definition close_issue :: transition where
  "close_issue = \<lparr>tid = ''31'', tname = ''Close Issue'', to_status = ''Closed''\<rparr>"

definition scenario_transitions :: "transition list" where
  "scenario_transitions = [start_progress, resolve_issue, close_issue]"

section \<open>Exceptions and timestamps\<close>

text \<open>
  A raised exception is a value; \<open>str_exn\<close> is Python's \<^verbatim>\<open>str(e)\<close>.  A function that can
  raise returns \<open>exn + 'a\<close>, with \<open>Inl\<close> the exception.
\<close>

datatype exn =
  KeyError string
  | TypeError string
  | ValueError string
  | OtherError string

fun str_exn :: "exn \<Rightarrow> string" where
  "str_exn (KeyError k) = [CHR 0x27] @ k @ [CHR 0x27]"
| "str_exn (TypeError m) = m"
| "str_exn (ValueError m) = m"
| "str_exn (OtherError m) = m"

definition try_bind :: "exn + 'a \<Rightarrow> ('a \<Rightarrow> exn + 'b) \<Rightarrow> exn + 'b" where
  "try_bind m f = (case m of Inl e \<Rightarrow> Inl e | Inr x \<Rightarrow> f x)"

text \<open>
  A \<^verbatim>\<open>datetime\<close>: the wall-clock reading in microseconds since 0001-01-01T00:00:00,
  and the UTC offset in microseconds of an aware value (\<open>None\<close> for a naive one).
  A \<^verbatim>\<open>timedelta\<close> is a number of microseconds.
\<close>

record datetime =
  tzoffset :: "int option"
  micros :: int

text \<open>
  The system clock at one reading: \<^verbatim>\<open>datetime.now()\<close> is the local wall clock,
  \<^verbatim>\<open>datetime.now(tz)\<close> the same instant shown in the zone \<open>tz\<close>.
\<close>

record clock =
  utc_now :: int
  local_now :: int

definition now :: "clock \<Rightarrow> int option \<Rightarrow> datetime" where
  "now clk tz = (case tz of
       None \<Rightarrow> \<lparr>tzoffset = None, micros = local_now clk\<rparr>
     | Some off \<Rightarrow> \<lparr>tzoffset = Some off, micros = utc_now clk + off\<rparr>)"

text \<open>
  Subtraction and ordering of two datetimes: between a naive and an aware value Python
  raises TypeError; two aware values are compared as instants.
\<close>

definition dt_sub :: "datetime \<Rightarrow> datetime \<Rightarrow> exn + int" where
  "dt_sub a b = (case (tzoffset a, tzoffset b) of
       (None, None) \<Rightarrow> Inr (micros a - micros b)
     | (Some oa, Some ob) \<Rightarrow> Inr ((micros a - oa) - (micros b - ob))
     | _ \<Rightarrow> Inl (TypeError ''can't subtract offset-naive and offset-aware datetimes''))"

definition dt_less :: "datetime \<Rightarrow> datetime \<Rightarrow> exn + bool" where
  "dt_less a b = (case (tzoffset a, tzoffset b) of
       (None, None) \<Rightarrow> Inr (micros a < micros b)
     | (Some oa, Some ob) \<Rightarrow> Inr (micros a - oa < micros b - ob)
     | _ \<Rightarrow> Inl (TypeError ''can't compare offset-naive and offset-aware datetimes''))"

definition dt_ge :: "datetime \<Rightarrow> datetime \<Rightarrow> exn + bool" where
  "dt_ge a b = (case (tzoffset a, tzoffset b) of
       (None, None) \<Rightarrow> Inr (micros a \<ge> micros b)
     | (Some oa, Some ob) \<Rightarrow> Inr (micros a - oa \<ge> micros b - ob)
     | _ \<Rightarrow> Inl (TypeError ''can't compare offset-naive and offset-aware datetimes''))"

text \<open>\<^verbatim>\<open>timedelta.total_seconds()\<close> and \<^verbatim>\<open>timedelta.days\<close> (floor division).\<close>

definition total_seconds :: "int \<Rightarrow> real" where
  "total_seconds d = real_of_int d / 1000000"

definition days :: "int \<Rightarrow> int" where
  "days d = d div 86400000000"

text \<open>\<^verbatim>\<open>s.replace(old, new)\<close> for a one-character \<open>old\<close>.\<close>

definition replace_chr :: "char \<Rightarrow> string \<Rightarrow> string \<Rightarrow> string" where
  "replace_chr old new s = concat (map (\<lambda>c. if c = old then new else [c]) s)"

section \<open>Tickets, filtering and SLA highlighting\<close>

text \<open>
  An issue of the ticket cache, with the fields the filters read.  \<open>None\<close> stands for a
  key that is absent or null in the backend's JSON; user objects are never empty.
\<close>

record user =
  emailAddress :: "string option"
  displayName :: "string option"

record ticket =
  key :: "string option"
  summary :: "string option"
  reporter :: "user option"
  assignee :: "user option"
  issuetype :: "string option"
  status :: "string option"
  priority :: "string option"
  created :: "string option"

definition completed_statuses :: "string list" where
  "completed_statuses = [''done'', ''closed'', ''resolved'', ''complete'', ''completed'', ''finished'']"

text \<open>\<^verbatim>\<open>u.get('emailAddress', '') if u else ''\<close>.\<close>

definition email_of :: "user option \<Rightarrow> string" where
  "email_of u = (case u of None \<Rightarrow> [] | Some x \<Rightarrow> (case emailAddress x of None \<Rightarrow> [] | Some e \<Rightarrow> e))"

text \<open>\<^verbatim>\<open>status.get('name', '').lower() if status else ''\<close>.\<close>

definition status_name :: "ticket \<Rightarrow> string" where
  "status_name issue = lower (case status issue of None \<Rightarrow> [] | Some n \<Rightarrow> n)"

text \<open>
  The loop body of \<^verbatim>\<open>SearchFilterManager.filter_tickets\<close> (search_filter.py): \<open>True\<close>
  when the issue is appended to \<^verbatim>\<open>tickets_to_show\<close>, \<open>False\<close> when a \<^verbatim>\<open>continue\<close> skips it.
  The completion test is membership of the lowercased status name in the list.
\<close>

definition sf_keeps :: "string \<Rightarrow> string \<Rightarrow> bool \<Rightarrow> string \<Rightarrow> ticket \<Rightarrow> bool" where
  "sf_keeps ticket_filter issue_type_filter hide_completed user_email issue =
     (let skipped_by_ownership =
            (if ticket_filter = ''My Tickets''
               then user_email \<notin> set [email_of (reporter issue), email_of (assignee issue)]
             else if ticket_filter = ''Unassigned'' then assignee issue \<noteq> None
             else False)
      in if skipped_by_ownership then False
         else if issue_type_filter \<noteq> ''All''
                 \<and> (case issuetype issue of None \<Rightarrow> [] | Some n \<Rightarrow> n) \<noteq> issue_type_filter
           then False
         else if hide_completed \<and> status_name issue \<in> set completed_statuses then False
         else True)"

text \<open>
  \<^verbatim>\<open>SearchFilterManager.filter_tickets\<close>: the list handed to the display callback, or
  \<open>None\<close> when the cache is empty and the function returns at once.
\<close>

definition sf_filter_tickets ::
  "ticket list \<Rightarrow> string \<Rightarrow> string \<Rightarrow> bool \<Rightarrow> string \<Rightarrow> ticket list option" where
  "sf_filter_tickets all_tickets ticket_filter issue_type_filter hide_completed user_email =
     (if all_tickets = [] then None
      else Some (filter (sf_keeps ticket_filter issue_type_filter hide_completed user_email) all_tickets))"

text \<open>
  The ownership test of \<^verbatim>\<open>filter_tickets\<close> in JiraTicketGUI_enhanced.py: \<open>True\<close> when
  the issue gets past the first \<^verbatim>\<open>if/elif\<close> chain.
\<close>

definition is_completed :: "ticket \<Rightarrow> bool" where
  "is_completed issue = any_in completed_statuses (status_name issue)"

definition passes_main_filter :: "string \<Rightarrow> string \<Rightarrow> ticket \<Rightarrow> bool" where
  "passes_main_filter ticket_filter user_email issue =
     (if ticket_filter = ''My Tickets''
        then user_email \<in> set [email_of (reporter issue), email_of (assignee issue)]
      else if ticket_filter = ''All Open'' then \<not> is_completed issue
      else if ticket_filter = ''Unassigned'' then assignee issue = None
      else True)"

text \<open>The loop body of \<^verbatim>\<open>filter_tickets\<close> in JiraTicketGUI_enhanced.py.\<close>

definition keeps :: "string \<Rightarrow> bool \<Rightarrow> string \<Rightarrow> ticket \<Rightarrow> bool" where
  "keeps ticket_filter hide_completed user_email issue =
     (if \<not> passes_main_filter ticket_filter user_email issue then False
      else if hide_completed \<and> ticket_filter \<noteq> ''All Open'' \<and> is_completed issue then False
      else True)"

definition filter_tickets :: "ticket list \<Rightarrow> string \<Rightarrow> bool \<Rightarrow> string \<Rightarrow> ticket list option" where
  "filter_tickets all_tickets ticket_filter hide_completed user_email =
     (if all_tickets = [] then None
      else Some (filter (keeps ticket_filter hide_completed user_email) all_tickets))"

text \<open>
  \<^verbatim>\<open>is_sla_missed\<close> of JiraTicketGUI_enhanced.py.  \<open>fromisoformat\<close> is the library parser
  \<^verbatim>\<open>datetime.fromisoformat\<close>; any exception inside the \<^verbatim>\<open>try\<close> block gives \<open>False\<close>.
  The priority name is read and not used.
\<close>

definition is_sla_missed :: "(string \<Rightarrow> exn + datetime) \<Rightarrow> clock \<Rightarrow> ticket \<Rightarrow> bool" where
  "is_sla_missed fromisoformat clk issue =
     (let priority_name = lower (case priority issue of None \<Rightarrow> [] | Some n \<Rightarrow> n) in
      if any_in completed_statuses (status_name issue) then False
      else case created issue of
          None \<Rightarrow> False
        | Some c \<Rightarrow>
            if c = [] then False
            else (case fromisoformat (replace_chr CHR ''Z'' ''+00:00'' c) of
                Inl e \<Rightarrow> False
              | Inr created_dt \<Rightarrow>
                  (case dt_sub (now clk (tzoffset created_dt)) created_dt of
                      Inl e \<Rightarrow> False
                    | Inr delta \<Rightarrow>
                        (let hours_since_created = total_seconds delta / 3600;
                             sla_window = 96
                         in hours_since_created > sla_window))))"

text \<open>
  The row tags of \<^verbatim>\<open>update_ticket_display\<close> after the ticket key: the SLA tag wins, then
  the priority tags.
\<close>

definition row_tags :: "(string \<Rightarrow> exn + datetime) \<Rightarrow> clock \<Rightarrow> ticket \<Rightarrow> string list" where
  "row_tags fromisoformat clk issue =
     (let priority_name = (case priority issue of None \<Rightarrow> ''Unknown'' | Some n \<Rightarrow> n) in
      if is_sla_missed fromisoformat clk issue then [''sla_missed'']
      else if lower priority_name = ''critical'' then [''critical'']
      else if lower priority_name = ''high'' then [''high'']
      else [])"

section \<open>Reminders\<close>

text \<open>
  A stored reminder (reminder_manager.py).  The timestamps are kept as ISO strings;
  \<open>snoozed_until\<close> is \<open>None\<close> for JSON null.
\<close>

record reminder =
  rid :: int
  title :: string
  due_date :: string
  completed :: bool
  snoozed_until :: "string option"

text \<open>
  \<^verbatim>\<open>ReminderManager.get_due_reminders\<close>: the loop over the stored reminders, with
  \<open>now_dt\<close> the naive \<^verbatim>\<open>datetime.now()\<close> read once before the loop.  A timestamp that does
  not parse, or an aware one, raises out of the function.
\<close>

fun get_due_reminders ::
  "(string \<Rightarrow> exn + datetime) \<Rightarrow> datetime \<Rightarrow> reminder list \<Rightarrow> exn + reminder list" where
  "get_due_reminders fromisoformat now_dt [] = Inr []"
| "get_due_reminders fromisoformat now_dt (r # rs) =
     (if completed r then get_due_reminders fromisoformat now_dt rs
      else
        try_bind
          (case snoozed_until r of
             None \<Rightarrow> Inr False
           | Some s \<Rightarrow>
               if s = [] then Inr False
               else try_bind (fromisoformat s) (\<lambda>snooze_time. dt_less now_dt snooze_time))
          (\<lambda>still_snoozed.
             if still_snoozed then get_due_reminders fromisoformat now_dt rs
             else
               try_bind (fromisoformat (due_date r)) (\<lambda>due.
               try_bind (dt_ge now_dt due) (\<lambda>is_due.
               try_bind (get_due_reminders fromisoformat now_dt rs) (\<lambda>due_reminders.
                 Inr (if is_due then r # due_reminders else due_reminders))))))"

text \<open>
  The reading of the specification: a reminder is due when it is not completed, its
  snooze time, if set, has been reached, and its due date has been reached.  Both
  timestamps are naive wall-clock readings in microseconds.
\<close>

definition reached :: "(string \<Rightarrow> exn + datetime) \<Rightarrow> int \<Rightarrow> string \<Rightarrow> bool" where
  "reached fromisoformat t s = (case fromisoformat s of Inl e \<Rightarrow> False | Inr d \<Rightarrow> micros d \<le> t)"

definition is_due_spec :: "(string \<Rightarrow> exn + datetime) \<Rightarrow> int \<Rightarrow> reminder \<Rightarrow> bool" where
  "is_due_spec fromisoformat t r =
     (\<not> completed r
      \<and> (case snoozed_until r of
            None \<Rightarrow> True
          | Some s \<Rightarrow> s = [] \<or> reached fromisoformat t s)
      \<and> reached fromisoformat t (due_date r))"

text \<open>
  A reminder as \<^verbatim>\<open>add_reminder\<close> and \<^verbatim>\<open>snooze_reminder\<close> store it: every timestamp that
  the loop can read is the ISO text of a naive datetime.
\<close>

definition naive_iso :: "(string \<Rightarrow> exn + datetime) \<Rightarrow> string \<Rightarrow> bool" where
  "naive_iso fromisoformat s = (case fromisoformat s of Inl e \<Rightarrow> False | Inr d \<Rightarrow> tzoffset d = None)"

definition well_formed :: "(string \<Rightarrow> exn + datetime) \<Rightarrow> reminder \<Rightarrow> bool" where
  "well_formed fromisoformat r =
     (naive_iso fromisoformat (due_date r)
      \<and> (case snoozed_until r of
            None \<Rightarrow> True
          | Some s \<Rightarrow> s = [] \<or> naive_iso fromisoformat s))"

section \<open>Comment monitor\<close>

record comment =
  cid :: string
  author :: "string option"

record new_comment =
  ticket_key :: string
  ticket_summary :: string
  the_comment :: comment

text \<open>
  The monitor's state: the known comment ids per ticket key, the pending new-comment
  entries, and how many times the notification dialog has been scheduled.
\<close>

record monitor =
  known_comments :: "string \<rightharpoonup> string list"
  new_comments :: "new_comment list"
  notifications :: nat

definition init_monitor :: monitor where
  "init_monitor = \<lparr>known_comments = Map.empty, new_comments = [], notifications = 0\<rparr>"

text \<open>
  \<^verbatim>\<open>_scan_current_tickets\<close>.  \<open>fetch\<close> is \<^verbatim>\<open>_get_ticket_comments\<close> against the backend as
  it is during this pass: the comment list of a ticket, empty after any failure.
  \<open>all_tickets\<close> is \<open>None\<close> when the shell has no ticket cache attribute.
\<close>

definition scan_ticket :: "(string \<Rightarrow> comment list) \<Rightarrow> ticket \<Rightarrow> monitor \<Rightarrow> monitor" where
  "scan_ticket fetch tk m =
     (case key tk of
        None \<Rightarrow> m
      | Some k \<Rightarrow>
          if k = [] then m
          else (let comments = fetch k in
                if comments \<noteq> [] then m\<lparr>known_comments := (known_comments m)(k \<mapsto> map cid comments)\<rparr>
                else m))"

definition scan_current_tickets ::
  "(string \<Rightarrow> comment list) \<Rightarrow> ticket list option \<Rightarrow> monitor \<Rightarrow> monitor" where
  "scan_current_tickets fetch all_tickets m =
     (case all_tickets of None \<Rightarrow> m | Some ts \<Rightarrow> fold (scan_ticket fetch) ts m)"

text \<open>
  One iteration of the loop of \<^verbatim>\<open>_check_for_new_comments\<close>, on the pair of the known-id
  map and \<^verbatim>\<open>new_comments_found\<close>.
\<close>

definition check_ticket ::
  "(string \<Rightarrow> comment list) \<Rightarrow> ticket
     \<Rightarrow> (string \<rightharpoonup> string list) \<times> new_comment list
     \<Rightarrow> (string \<rightharpoonup> string list) \<times> new_comment list" where
  "check_ticket fetch tk st =
     (case key tk of
        None \<Rightarrow> st
      | Some k \<Rightarrow>
          if k = [] then st
          else (let comments = fetch k in
                if comments = [] then st
                else (let current_comment_ids = map cid comments;
                          found =
                            (case fst st k of
                               None \<Rightarrow> snd st
                             | Some known \<Rightarrow>
                                 (let new_ids = filter (\<lambda>i. i \<notin> set known) current_comment_ids in
                                  if new_ids \<noteq> []
                                  then snd st @
                                    map (\<lambda>c. \<lparr>ticket_key = k,
                                              ticket_summary = (case summary tk of None \<Rightarrow> [] | Some s \<Rightarrow> s),
                                              the_comment = c\<rparr>)
                                      (filter (\<lambda>c. cid c \<in> set new_ids) comments)
                                  else snd st))
                      in ((fst st)(k \<mapsto> current_comment_ids), found))))"

definition check_for_new_comments ::
  "(string \<Rightarrow> comment list) \<Rightarrow> ticket list option \<Rightarrow> monitor \<Rightarrow> monitor" where
  "check_for_new_comments fetch all_tickets m =
     (case all_tickets of
        None \<Rightarrow> m
      | Some ts \<Rightarrow>
          (let st = fold (check_ticket fetch) ts (known_comments m, []) in
           if snd st \<noteq> []
           then m\<lparr>known_comments := fst st, new_comments := new_comments m @ snd st,
                  notifications := Suc (notifications m)\<rparr>
           else m\<lparr>known_comments := fst st\<rparr>))"

text \<open>
  \<^verbatim>\<open>_monitor_loop\<close> for as long as monitoring stays on: the baseline scan against the
  first backend state, then one check per later state.
\<close>

definition monitor_loop ::
  "(string \<Rightarrow> comment list) \<Rightarrow> (string \<Rightarrow> comment list) list \<Rightarrow> ticket list option \<Rightarrow> monitor \<Rightarrow> monitor" where
  "monitor_loop fetch0 later all_tickets m =
     fold (\<lambda>fetch. check_for_new_comments fetch all_tickets) later
       (scan_current_tickets fetch0 all_tickets m)"

section \<open>Reference model of the library's ISO timestamps\<close>

text \<open>
  \<^verbatim>\<open>datetime.isoformat\<close> and \<^verbatim>\<open>datetime.fromisoformat\<close> belong to the Python library,
  not to the repository; the program functions take the parser as a parameter.  The
  executable model below follows the library's proleptic Gregorian calendar and the
  format \<^verbatim>\<open>YYYY-MM-DD[*HH[:MM[:SS[.fff[fff]]]][+HH:MM]]\<close>; it is used to run the program
  functions on concrete timestamps.
\<close>

definition digit_val :: "char \<Rightarrow> int option" where
  "digit_val c = (let n = (of_char c :: int) in if 48 \<le> n \<and> n \<le> 57 then Some (n - 48) else None)"

fun digits_val :: "int \<Rightarrow> string \<Rightarrow> int option" where
  "digits_val acc [] = Some acc"
| "digits_val acc (c # cs) =
     (case digit_val c of None \<Rightarrow> None | Some d \<Rightarrow> digits_val (acc * 10 + d) cs)"

text \<open>A field of exactly \<open>n\<close> decimal digits.\<close>

definition field :: "nat \<Rightarrow> string \<Rightarrow> int option" where
  "field n s = (if length s = n \<and> n > 0 then digits_val 0 s else None)"

definition is_leap :: "int \<Rightarrow> bool" where
  "is_leap y = (y mod 4 = 0 \<and> (y mod 100 \<noteq> 0 \<or> y mod 400 = 0))"

definition days_in_month :: "int \<Rightarrow> int \<Rightarrow> int" where
  "days_in_month y m =
     (if m = 2 then (if is_leap y then 29 else 28)
      else if m \<in> {4, 6, 9, 11} then 30 else 31)"

definition days_before_year :: "int \<Rightarrow> int" where
  "days_before_year y = (y - 1) * 365 + (y - 1) div 4 - (y - 1) div 100 + (y - 1) div 400"

definition days_before_month :: "int \<Rightarrow> int \<Rightarrow> int" where
  "days_before_month y m = sum_list (map (days_in_month y) [1..m - 1])"

text \<open>The wall-clock reading of a calendar date and time of day, in microseconds.\<close>

definition wall_micros :: "int \<Rightarrow> int \<Rightarrow> int \<Rightarrow> int \<Rightarrow> int \<Rightarrow> int \<Rightarrow> int \<Rightarrow> int" where
  "wall_micros y m d hh mm ss us =
     ((((days_before_year y + days_before_month y m + (d - 1)) * 24 + hh) * 60 + mm) * 60 + ss)
       * 1000000 + us"

definition parse_date :: "string \<Rightarrow> (int \<times> int \<times> int) option" where
  "parse_date s =
     (if length s = 10 \<and> s ! 4 = CHR ''-'' \<and> s ! 7 = CHR ''-'' then
        (case (field 4 (take 4 s), field 2 (take 2 (drop 5 s)), field 2 (drop 8 s)) of
           (Some y, Some m, Some d) \<Rightarrow>
             if 1 \<le> y \<and> 1 \<le> m \<and> m \<le> 12 \<and> 1 \<le> d \<and> d \<le> days_in_month y m
             then Some (y, m, d) else None
         | _ \<Rightarrow> None)
      else None)"

text \<open>\<^verbatim>\<open>HH[:MM[:SS[.fff[fff]]]]\<close> as hours, minutes, seconds, microseconds.\<close>

definition parse_hh_mm_ss_ff :: "string \<Rightarrow> (int \<times> int \<times> int \<times> int) option" where
  "parse_hh_mm_ss_ff s =
     (let n = length s;
          hh = field 2 (take 2 s);
          mm = (if n = 2 then Some 0 else if s ! 2 = CHR '':'' then field 2 (take 2 (drop 3 s)) else None);
          ss = (if n \<le> 5 then Some 0 else if s ! 5 = CHR '':'' then field 2 (take 2 (drop 6 s)) else None);
          us = (if n \<le> 8 then Some 0
                else if s ! 8 = CHR ''.'' \<and> n = 12 then map_option (\<lambda>v. v * 1000) (field 3 (drop 9 s))
                else if s ! 8 = CHR ''.'' \<and> n = 15 then field 6 (drop 9 s)
                else None)
      in if n \<in> {2, 5, 8, 12, 15} then
           (case (hh, mm, ss, us) of
              (Some h, Some m, Some sec, Some u) \<Rightarrow>
                if h < 24 \<and> m < 60 \<and> sec < 60 then Some (h, m, sec, u) else None
            | _ \<Rightarrow> None)
         else None)"

text \<open>\<^verbatim>\<open>HH:MM\<close> after the sign of a UTC offset, in microseconds.\<close>

definition parse_offset :: "string \<Rightarrow> int option" where
  "parse_offset s =
     (if length s = 5 \<and> s ! 2 = CHR '':'' then
        (case (field 2 (take 2 s), field 2 (drop 3 s)) of
           (Some h, Some m) \<Rightarrow> if h < 24 \<and> m < 60 then Some ((h * 60 + m) * 60 * 1000000) else None
         | _ \<Rightarrow> None)
      else None)"

text \<open>The position of the offset sign in the time part, if there is one.\<close>

definition sign_pos :: "string \<Rightarrow> nat option" where
  "sign_pos s = (case find (\<lambda>i. s ! i = CHR ''-'') [0..<length s] of
       Some i \<Rightarrow> Some i
     | None \<Rightarrow> find (\<lambda>i. s ! i = CHR ''+'') [0..<length s])"

definition fromisoformat_ref :: "string \<Rightarrow> exn + datetime" where
  "fromisoformat_ref s =
     (let bad = Inl (ValueError (''Invalid isoformat string: '' @ s)) in
      case parse_date (take 10 s) of
        None \<Rightarrow> bad
      | Some (y, m, d) \<Rightarrow>
          if length s \<le> 11 then
            (if length s = 10 then Inr \<lparr>tzoffset = None, micros = wall_micros y m d 0 0 0 0\<rparr> else bad)
          else
            (let tstr = drop 11 s in
             case sign_pos tstr of
               None \<Rightarrow>
                 (case parse_hh_mm_ss_ff tstr of
                    None \<Rightarrow> bad
                  | Some (hh, mm, ss, us) \<Rightarrow> Inr \<lparr>tzoffset = None, micros = wall_micros y m d hh mm ss us\<rparr>)
             | Some p \<Rightarrow>
                 (case (parse_hh_mm_ss_ff (take p tstr), parse_offset (drop (Suc p) tstr)) of
                    (Some (hh, mm, ss, us), Some off) \<Rightarrow>
                      Inr \<lparr>tzoffset = Some (if tstr ! p = CHR ''-'' then - off else off),
                           micros = wall_micros y m d hh mm ss us\<rparr>
                  | _ \<Rightarrow> bad)))"

section \<open>Notions used to state the properties\<close>

text \<open>
  The time elapsed since a ticket's creation, in microseconds: measured on the local
  wall clock for a naive creation time and between instants for an aware one.
\<close>

definition elapsed_micros :: "clock \<Rightarrow> datetime \<Rightarrow> int" where
  "elapsed_micros clk d =
     (case tzoffset d of
        None \<Rightarrow> local_now clk - micros d
      | Some off \<Rightarrow> utc_now clk - (micros d - off))"

text \<open>The non-empty keys of the tickets in the cache.\<close>

fun ticket_keys :: "ticket list \<Rightarrow> string set" where
  "ticket_keys [] = {}"
| "ticket_keys (tk # ts) =
     (case key tk of
        None \<Rightarrow> ticket_keys ts
      | Some k \<Rightarrow> if k = [] then ticket_keys ts else insert k (ticket_keys ts))"

text \<open>
  A known-id entry is settled with respect to a backend state when it is absent or
  already holds that state's ids.
\<close>

definition settled :: "(string \<Rightarrow> comment list) \<Rightarrow> (string \<rightharpoonup> string list) \<Rightarrow> string \<Rightarrow> bool" where
  "settled fetch known k = (known k = None \<or> known k = Some (map cid (fetch k)))"

section \<open>Sample data\<close>

definition closed_duplicate :: ticket where
  "closed_duplicate =
     \<lparr>key = Some ''ITS-7'', summary = Some ''Printer offline'', reporter = None, assignee = None,
      issuetype = Some ''Incident'', status = Some ''Closed - Duplicate'', priority = Some ''Low'',
      created = Some ''2025-01-06T09:00:00.000Z''\<rparr>"

definition open_ticket_sample :: ticket where
  "open_ticket_sample =
     \<lparr>key = Some ''ITS-42'', summary = Some ''Laptop will not boot'',
      reporter = Some \<lparr>emailAddress = Some ''pat@example.com'', displayName = Some ''Pat''\<rparr>,
      assignee = None, issuetype = Some ''Incident'', status = Some ''In Progress'',
      priority = Some ''Low'', created = Some ''2025-01-06T09:00:00.000Z''\<rparr>"

text \<open>Two clock readings, 96h01m and 95h59m after 2025-01-06T09:00:00 UTC, local time UTC+1.\<close>

definition clock_96h01 :: clock where
  "clock_96h01 = \<lparr>utc_now = 63872096460000000, local_now = 63872100060000000\<rparr>"

definition clock_95h59 :: clock where
  "clock_95h59 = \<lparr>utc_now = 63872096340000000, local_now = 63872099940000000\<rparr>"

text \<open>Three reminders read at 2025-03-10T12:00:00: one due, one snoozed, one completed.\<close>

definition reminder_due :: reminder where
  "reminder_due = \<lparr>rid = 1, title = ''Collect badge'', due_date = ''2025-03-10T11:00:00'',
                    completed = False, snoozed_until = None\<rparr>"

definition reminder_snoozed :: reminder where
  "reminder_snoozed = reminder_due\<lparr>rid := 2, snoozed_until := Some ''2025-03-10T13:00:00''\<rparr>"

definition reminder_done :: reminder where
  "reminder_done = reminder_due\<lparr>rid := 3, completed := True\<rparr>"

definition noon :: int where
  "noon = 63877204800000000"

text \<open>
  Two cached tickets and three backend states: ITS-1 has one comment, ITS-2 none; then
  ITS-1 gains a second comment; or instead ITS-2 gains its first.
\<close>

definition ticket_1 :: ticket where
  "ticket_1 = open_ticket_sample\<lparr>key := Some ''ITS-1''\<rparr>"

definition ticket_2 :: ticket where
  "ticket_2 = open_ticket_sample\<lparr>key := Some ''ITS-2''\<rparr>"

definition comment_a :: comment where
  "comment_a = \<lparr>cid = ''10001'', author = Some ''Pat''\<rparr>"

definition comment_b :: comment where
  "comment_b = \<lparr>cid = ''10002'', author = Some ''Sam''\<rparr>"

definition backend_0 :: "string \<Rightarrow> comment list" where
  "backend_0 k = (if k = ''ITS-1'' then [comment_a] else [])"

definition backend_1 :: "string \<Rightarrow> comment list" where
  "backend_1 k = (if k = ''ITS-1'' then [comment_a, comment_b] else [])"

definition backend_2 :: "string \<Rightarrow> comment list" where
  "backend_2 k = (if k = ''ITS-1'' then [comment_a] else if k = ''ITS-2'' then [comment_b] else [])"

section \<open>AI triage post-processing\<close>


definition is_digit :: "char \<Rightarrow> bool" where
  "is_digit c = (let n = (of_char c :: nat) in 48 \<le> n \<and> n \<le> 57)"
























section \<open>Licensing\<close>

text \<open>
  A value that \<^verbatim>\<open>json.loads\<close> returns or \<^verbatim>\<open>json.dumps\<close> accepts: \<^verbatim>\<open>None\<close>, a bool, an int, a
  string, a list, or a dict with string keys in insertion order.  Floats are outside the
  model.
\<close>

datatype json =
  JNull
  | JBool bool
  | JInt int
  | JStr string
  | JArr "json list"
  | JObj "(string \<times> json) list"

text \<open>
  The library functions the licensing code calls: \<^verbatim>\<open>str.encode\<close>, \<^verbatim>\<open>bytes.decode\<close>,
  \<^verbatim>\<open>base64.b64encode\<close>, \<^verbatim>\<open>base64.b64decode\<close>, \<^verbatim>\<open>json.dumps\<close> (with its \<^verbatim>\<open>sort_keys\<close>
  flag), \<^verbatim>\<open>json.loads\<close>, \<^verbatim>\<open>hmac.new(key, msg, sha256).hexdigest()\<close>,
  \<^verbatim>\<open>hashlib.sha256(msg).hexdigest()\<close>, \<^verbatim>\<open>datetime.fromisoformat\<close> and
  \<^verbatim>\<open>datetime.isoformat\<close>.  They are parameters of the program functions; the ones that
  can raise return \<open>exn + 'a\<close>.  A byte string is a \<^typ>\<open>string\<close> too.
\<close>

record pylib =
  str_encode :: "string \<Rightarrow> exn + string"
  bytes_decode :: "string \<Rightarrow> exn + string"
  b64encode :: "string \<Rightarrow> string"
  b64decode :: "string \<Rightarrow> exn + string"
  json_dumps :: "bool \<Rightarrow> json \<Rightarrow> exn + string"
  json_loads :: "string \<Rightarrow> exn + json"
  hmac_sha256_hexdigest :: "string \<Rightarrow> string \<Rightarrow> string"
  sha256_hexdigest :: "string \<Rightarrow> string"
  fromisoformat :: "string \<Rightarrow> exn + datetime"
  isoformat :: "datetime \<Rightarrow> string"

definition license_secret :: string where
  "license_secret = ''JTV-2025-SECRET-KEY-DO-NOT-SHARE''"

text \<open>\<^verbatim>\<open>d[k]\<close> on a parsed value: KeyError on a dict without the key, TypeError on anything else.\<close>

definition subscript :: "json \<Rightarrow> string \<Rightarrow> exn + json" where
  "subscript d k =
     (case d of
        JObj kvs \<Rightarrow> (case map_of kvs k of None \<Rightarrow> Inl (KeyError k) | Some v \<Rightarrow> Inr v)
      | JArr xs \<Rightarrow> Inl (TypeError ''list indices must be integers or slices, not str'')
      | JStr s \<Rightarrow> Inl (TypeError ''string indices must be integers'')
      | _ \<Rightarrow> Inl (TypeError ''object is not subscriptable''))"

text \<open>Python truthiness of a parsed value.\<close>

fun truthy :: "json \<Rightarrow> bool" where
  "truthy JNull = False"
| "truthy (JBool b) = b"
| "truthy (JInt i) = (i \<noteq> 0)"
| "truthy (JStr s) = (s \<noteq> [])"
| "truthy (JArr xs) = (xs \<noteq> [])"
| "truthy (JObj kvs) = (kvs \<noteq> [])"

definition is_ascii :: "char \<Rightarrow> bool" where
  "is_ascii c = ((of_char c :: nat) < 128)"

text \<open>
  \<^verbatim>\<open>hmac.compare_digest(signature, expected)\<close> with \<open>expected\<close> a str: TypeError unless
  \<open>signature\<close> is a str too and both are ASCII.
\<close>

definition compare_digest :: "json \<Rightarrow> string \<Rightarrow> exn + bool" where
  "compare_digest signature expected =
     (case signature of
        JStr s \<Rightarrow>
          if list_all is_ascii s \<and> list_all is_ascii expected then Inr (s = expected)
          else Inl (TypeError ''comparing strings with non-ASCII characters is not supported'')
      | _ \<Rightarrow> Inl (TypeError ''unsupported operand types(s) or combination of types''))"

text \<open>\<^verbatim>\<open>datetime.fromisoformat(v)\<close> on a parsed value.\<close>

definition fromisoformat_json :: "pylib \<Rightarrow> json \<Rightarrow> exn + datetime" where
  "fromisoformat_json L v =
     (case v of
        JStr s \<Rightarrow> fromisoformat L s
      | _ \<Rightarrow> Inl (TypeError ''fromisoformat: argument must be str''))"

text \<open>The naive \<^verbatim>\<open>datetime.now()\<close> at a reading \<open>t\<close> of the local wall clock.\<close>

definition naive :: "int \<Rightarrow> datetime" where
  "naive t = \<lparr>tzoffset = None, micros = t\<rparr>"

text \<open>The dict a validation returns; \<open>license\<close> is its \<^verbatim>\<open>data\<close> entry.\<close>

record validation =
  valid :: bool
  error :: "string option"
  license :: "json option"
  days_remaining :: "int option"

definition invalid :: "string \<Rightarrow> validation" where
  "invalid msg = \<lparr>valid = False, error = Some msg, license = None, days_remaining = None\<rparr>"

text \<open>
  The machine the program runs on, as \<^verbatim>\<open>socket.gethostname()\<close>, \<^verbatim>\<open>platform.system()\<close>,
  \<^verbatim>\<open>platform.machine()\<close> and \<^verbatim>\<open>uuid.getnode()\<close> report it.
\<close>

record host =
  hostname :: string
  system :: string
  machine :: string
  mac :: int

text \<open>\<^verbatim>\<open>str(n)\<close> for an int.\<close>

function str_nat :: "int \<Rightarrow> string" where
  "str_nat n = (if n < 10 then [char_of (48 + n)] else str_nat (n div 10) @ [char_of (48 + n mod 10)])"
  by pat_completeness auto
termination
  by (relation "measure nat") auto

definition str_int :: "int \<Rightarrow> string" where
  "str_int n = (if n < 0 then CHR ''-'' # str_nat (- n) else str_nat n)"

text \<open>\<^verbatim>\<open>get_machine_id\<close>, the same in both classes.\<close>

definition get_machine_id :: "pylib \<Rightarrow> host \<Rightarrow> exn + string" where
  "get_machine_id L h =
     (let machine_string = hostname h @ ''-'' @ system h @ ''-'' @ machine h @ ''-'' @ str_int (mac h)
      in try_bind (str_encode L machine_string) (\<lambda>b. Inr (take 16 (sha256_hexdigest L b))))"

text \<open>
  \<^verbatim>\<open>LicenseValidator.validate_license_key\<close> (license_validator.py): the body of the
  \<^verbatim>\<open>try\<close> block, and the function with its catch-all handler.  \<open>t1\<close> and \<open>t2\<close> are the two
  readings of \<^verbatim>\<open>datetime.now()\<close>, at the expiry test and at the remaining-days
  computation.  The machine check is commented out in the source and absent here.
\<close>

definition LicenseValidator_try :: "pylib \<Rightarrow> string \<Rightarrow> int \<Rightarrow> int \<Rightarrow> string \<Rightarrow> exn + validation" where
  "LicenseValidator_try L secret t1 t2 license_key =
     try_bind (str_encode L license_key) (\<lambda>key_bytes.
     try_bind (b64decode L key_bytes) (\<lambda>decoded.
     try_bind (bytes_decode L decoded) (\<lambda>license_json.
     try_bind (json_loads L license_json) (\<lambda>license_payload.
     try_bind (subscript license_payload ''data'') (\<lambda>data.
     try_bind (subscript license_payload ''signature'') (\<lambda>signature.
     try_bind (json_dumps L True data) (\<lambda>data_string.
     try_bind (str_encode L secret) (\<lambda>secret_bytes.
     try_bind (str_encode L data_string) (\<lambda>data_bytes.
     try_bind (compare_digest signature (hmac_sha256_hexdigest L secret_bytes data_bytes)) (\<lambda>same.
       if \<not> same then Inr (invalid ''Invalid license signature'')
       else
         try_bind (subscript data ''expires'') (\<lambda>expires.
         try_bind (fromisoformat_json L expires) (\<lambda>expiry_date.
         try_bind (dt_less expiry_date (naive t1)) (\<lambda>expired.
           if expired then Inr (invalid ''License expired'')
           else
             try_bind (dt_sub expiry_date (naive t2)) (\<lambda>remaining.
               Inr \<lparr>valid = True, error = None, license = Some data,
                    days_remaining = Some (days remaining)\<rparr>))))))))))))))"

definition LicenseValidator_validate_license_key ::
  "pylib \<Rightarrow> string \<Rightarrow> int \<Rightarrow> int \<Rightarrow> string \<Rightarrow> validation" where
  "LicenseValidator_validate_license_key L secret t1 t2 license_key =
     (case LicenseValidator_try L secret t1 t2 license_key of
        Inr result \<Rightarrow> result
      | Inl e \<Rightarrow> invalid (''License validation error: '' @ str_exn e))"

text \<open>
  \<^verbatim>\<open>LicenseManager.validate_license_key\<close> (license_manager.py): the same, with the machine
  check between the expiry test and the result.
\<close>

definition LicenseManager_try ::
  "pylib \<Rightarrow> string \<Rightarrow> host \<Rightarrow> int \<Rightarrow> int \<Rightarrow> string \<Rightarrow> exn + validation" where
  "LicenseManager_try L secret h t1 t2 license_key =
     try_bind (str_encode L license_key) (\<lambda>key_bytes.
     try_bind (b64decode L key_bytes) (\<lambda>decoded.
     try_bind (bytes_decode L decoded) (\<lambda>license_json.
     try_bind (json_loads L license_json) (\<lambda>license_payload.
     try_bind (subscript license_payload ''data'') (\<lambda>data.
     try_bind (subscript license_payload ''signature'') (\<lambda>signature.
     try_bind (json_dumps L True data) (\<lambda>data_string.
     try_bind (str_encode L secret) (\<lambda>secret_bytes.
     try_bind (str_encode L data_string) (\<lambda>data_bytes.
     try_bind (compare_digest signature (hmac_sha256_hexdigest L secret_bytes data_bytes)) (\<lambda>same.
       if \<not> same then Inr (invalid ''Invalid license signature'')
       else
         try_bind (subscript data ''expires'') (\<lambda>expires.
         try_bind (fromisoformat_json L expires) (\<lambda>expiry_date.
         try_bind (dt_less expiry_date (naive t1)) (\<lambda>expired.
           if expired then Inr (invalid ''License expired'')
           else
             try_bind (get_machine_id L h) (\<lambda>current_machine_id.
               if (case subscript data ''machine_id'' of Inl e \<Rightarrow> False | Inr m \<Rightarrow> truthy m)
                  \<and> subscript data ''machine_id'' \<noteq> Inr (JStr current_machine_id)
               then Inr (invalid ''License not valid for this machine'')
               else
                 try_bind (dt_sub expiry_date (naive t2)) (\<lambda>remaining.
                   Inr \<lparr>valid = True, error = None, license = Some data,
                        days_remaining = Some (days remaining)\<rparr>)))))))))))))))"

definition LicenseManager_validate_license_key ::
  "pylib \<Rightarrow> string \<Rightarrow> host \<Rightarrow> int \<Rightarrow> int \<Rightarrow> string \<Rightarrow> validation" where
  "LicenseManager_validate_license_key L secret h t1 t2 license_key =
     (case LicenseManager_try L secret h t1 t2 license_key of
        Inr result \<Rightarrow> result
      | Inl e \<Rightarrow> invalid (''License validation error: '' @ str_exn e))"

text \<open>\<^verbatim>\<open>LicenseManager.get_license_features\<close>: an unknown type gets the trial features.\<close>

definition features_of :: "bool \<Rightarrow> bool \<Rightarrow> bool \<Rightarrow> int \<Rightarrow> json" where
  "features_of export_data api_access priority_support max_users =
     JObj [(''create_tickets'', JBool True), (''comment_tickets'', JBool True),
           (''assign_tickets'', JBool True), (''search_tickets'', JBool True),
           (''export_data'', JBool export_data), (''api_access'', JBool api_access),
           (''priority_support'', JBool priority_support), (''max_users'', JInt max_users)]"

definition get_license_features :: "string \<Rightarrow> json" where
  "get_license_features license_type =
     (if license_type = ''standard'' then features_of True True False 5
      else if license_type = ''premium'' then features_of True True True (- 1)
      else features_of False False False 1)"

text \<open>
  The range of \<^verbatim>\<open>datetime\<close> (years 1 to 9999) and of \<^verbatim>\<open>timedelta(days=...)\<close>; leaving
  either raises OverflowError.
\<close>

definition max_micros :: int where
  "max_micros = 3652059 * 86400000000 - 1"

definition add_days :: "int \<Rightarrow> int \<Rightarrow> exn + int" where
  "add_days t d =
     (if \<bar>d\<bar> > 999999999 then Inl (OtherError ''days=%d; must have magnitude <= 999999999'')
      else if t + d * 86400000000 < 0 \<or> t + d * 86400000000 > max_micros
        then Inl (OtherError ''date value out of range'')
      else Inr (t + d * 86400000000))"

text \<open>The \<^verbatim>\<open>license_data\<close> dict of \<^verbatim>\<open>generate_license_key\<close>, in insertion order.\<close>

definition license_data :: "pylib \<Rightarrow> string \<Rightarrow> string \<Rightarrow> int \<Rightarrow> string \<Rightarrow> json" where
  "license_data L user_email license_type expiry machine_id =
     JObj [(''email'', JStr user_email), (''type'', JStr license_type),
           (''expires'', JStr (isoformat L (naive expiry))), (''machine_id'', JStr machine_id),
           (''version'', JStr ''1.0''), (''features'', get_license_features license_type)]"

text \<open>
  \<^verbatim>\<open>LicenseManager.generate_license_key\<close>; \<open>t0\<close> is the reading of \<^verbatim>\<open>datetime.now()\<close>.  No
  handler surrounds the body, so an exception leaves the function.
\<close>

definition LicenseManager_generate_license_key ::
  "pylib \<Rightarrow> string \<Rightarrow> host \<Rightarrow> int \<Rightarrow> string \<Rightarrow> string \<Rightarrow> int \<Rightarrow> exn + string" where
  "LicenseManager_generate_license_key L secret h t0 user_email license_type days_valid =
     try_bind (add_days t0 days_valid) (\<lambda>expiry_date.
     try_bind (get_machine_id L h) (\<lambda>machine_id.
       (let data = license_data L user_email license_type expiry_date machine_id in
        try_bind (json_dumps L True data) (\<lambda>data_string.
        try_bind (str_encode L secret) (\<lambda>secret_bytes.
        try_bind (str_encode L data_string) (\<lambda>data_bytes.
          (let signature = hmac_sha256_hexdigest L secret_bytes data_bytes;
               license_payload = JObj [(''data'', data), (''signature'', JStr signature)]
           in try_bind (json_dumps L False license_payload) (\<lambda>license_json.
              try_bind (str_encode L license_json) (\<lambda>json_bytes.
              bytes_decode L (b64encode L json_bytes))))))))))"

section \<open>Notions used to state the licensing properties\<close>

text \<open>The payload a license key decodes to: base64, then UTF-8, then JSON.\<close>

definition decode_payload :: "pylib \<Rightarrow> string \<Rightarrow> exn + json" where
  "decode_payload L license_key =
     try_bind (str_encode L license_key) (\<lambda>key_bytes.
     try_bind (b64decode L key_bytes) (\<lambda>decoded.
     try_bind (bytes_decode L decoded) (\<lambda>license_json.
     json_loads L license_json)))"

text \<open>
  A key is malformed when it does not decode to a payload, or the payload lacks the
  \<open>data\<close> or the \<open>signature\<close> entry, or the data lacks the \<open>expires\<close> entry.
\<close>

definition malformed :: "pylib \<Rightarrow> string \<Rightarrow> bool" where
  "malformed L license_key =
     (case decode_payload L license_key of
        Inl e \<Rightarrow> True
      | Inr p \<Rightarrow>
          (case (subscript p ''data'', subscript p ''signature'') of
             (Inr d, Inr s) \<Rightarrow> (case subscript d ''expires'' of Inl e \<Rightarrow> True | Inr x \<Rightarrow> False)
           | _ \<Rightarrow> True))"

text \<open>
  The outcome of the signature comparison on a payload: the HMAC of the canonical
  (sorted-key) JSON of its data under the secret, against its signature entry.
\<close>

definition signature_check :: "pylib \<Rightarrow> string \<Rightarrow> json \<Rightarrow> exn + bool" where
  "signature_check L secret p =
     try_bind (subscript p ''data'') (\<lambda>d.
     try_bind (subscript p ''signature'') (\<lambda>signature.
     try_bind (json_dumps L True d) (\<lambda>data_string.
     try_bind (str_encode L secret) (\<lambda>secret_bytes.
     try_bind (str_encode L data_string) (\<lambda>data_bytes.
     compare_digest signature (hmac_sha256_hexdigest L secret_bytes data_bytes))))))"

text \<open>The result of a successful validation.\<close>

definition accepted :: "json \<Rightarrow> int \<Rightarrow> validation" where
  "accepted d remaining =
     \<lparr>valid = True, error = None, license = Some d, days_remaining = Some (days remaining)\<rparr>"

text \<open>The machine check of the manager fires: the entry is truthy and differs from the id.\<close>

definition machine_mismatch :: "json \<Rightarrow> string \<Rightarrow> bool" where
  "machine_mismatch d current_machine_id =
     ((case subscript d ''machine_id'' of Inl e \<Rightarrow> False | Inr m \<Rightarrow> truthy m)
      \<and> subscript d ''machine_id'' \<noteq> Inr (JStr current_machine_id))"

section \<open>Reference model of the library: UTF-8 and base64\<close>

text \<open>
  Executable models of the library functions, used to run the licensing code on concrete
  keys.  \<^verbatim>\<open>str.encode()\<close> is UTF-8 on the modelled code points; \<^verbatim>\<open>bytes.decode()\<close> is
  strict UTF-8 and, on a well-formed sequence whose code point is beyond 255, stops with
  an error of its own, since such a string is outside the model.
\<close>

definition byte :: "int \<Rightarrow> char" where
  "byte n = char_of n"

definition code :: "char \<Rightarrow> int" where
  "code c = of_char c"

definition utf8_encode :: "string \<Rightarrow> exn + string" where
  "utf8_encode s =
     Inr (concat (map (\<lambda>c. if code c < 128 then [c]
                             else [byte (192 + code c div 64), byte (128 + code c mod 64)]) s))"

fun utf8_decode :: "string \<Rightarrow> exn + string" where
  "utf8_decode [] = Inr []"
| "utf8_decode (b # bs) =
     (if code b < 128 then try_bind (utf8_decode bs) (\<lambda>r. Inr (b # r))
      else if code b = 194 \<or> code b = 195 then
        (case bs of
           [] \<Rightarrow> Inl (ValueError ''utf-8 codec can't decode: unexpected end of data'')
         | b2 # bs' \<Rightarrow>
             if 128 \<le> code b2 \<and> code b2 < 192
             then try_bind (utf8_decode bs') (\<lambda>r. Inr (byte ((code b - 192) * 64 + (code b2 - 128)) # r))
             else Inl (ValueError ''utf-8 codec can't decode: invalid continuation byte''))
      else if code b < 194 \<or> code b > 244 then
        Inl (ValueError ''utf-8 codec can't decode: invalid start byte'')
      else Inl (OtherError ''code point outside the modelled range''))"

definition b64_alphabet :: string where
  "b64_alphabet = ''ABCDEFGHIJKLMNOPQRSTUVWXYZabcdefghijklmnopqrstuvwxyz0123456789+/''"

definition b64_char :: "int \<Rightarrow> char" where
  "b64_char n = b64_alphabet ! nat n"

text \<open>The value of a character of the alphabet, if it is one.\<close>

definition b64_value :: "char \<Rightarrow> int option" where
  "b64_value c =
     (let n = code c in
      if 65 \<le> n \<and> n \<le> 90 then Some (n - 65)
      else if 97 \<le> n \<and> n \<le> 122 then Some (n - 71)
      else if 48 \<le> n \<and> n \<le> 57 then Some (n + 4)
      else if n = 43 then Some 62
      else if n = 47 then Some 63
      else None)"

text \<open>\<^verbatim>\<open>base64.b64encode\<close>: three bytes give four characters, the tail is padded.\<close>

fun b64encode_ref :: "string \<Rightarrow> string" where
  "b64encode_ref (a # b # c # rest) =
     (let n = (code a * 256 + code b) * 256 + code c in
      [b64_char (n div 262144), b64_char (n div 4096 mod 64), b64_char (n div 64 mod 64),
       b64_char (n mod 64)] @ b64encode_ref rest)"
| "b64encode_ref [a, b] =
     (let n = (code a * 256 + code b) * 4 in
      [b64_char (n div 4096), b64_char (n div 64 mod 64), b64_char (n mod 64), CHR ''=''])"
| "b64encode_ref [a] =
     (let n = code a * 16 in [b64_char (n div 64), b64_char (n mod 64), CHR ''='', CHR ''=''])"
| "b64encode_ref [] = []"

text \<open>
  \<^verbatim>\<open>base64.b64decode\<close> without validation, as \<^verbatim>\<open>binascii.a2b_base64\<close> scans its input:
  characters outside the alphabet are skipped; \<open>quad_pos\<close> counts the characters of the
  current group, \<open>leftchar\<close> holds its pending bits, \<open>pads\<close> the padding characters
  seen since the last data character; a complete padding ends the scan, and an incomplete
  last group is an error.
\<close>

fun a2b_base64 :: "int \<Rightarrow> int \<Rightarrow> int \<Rightarrow> string \<Rightarrow> string \<Rightarrow> exn + string" where
  "a2b_base64 quad_pos leftchar pads out [] =
     (if quad_pos = 0 then Inr (rev out)
      else if quad_pos = 1 then
        Inl (OtherError ''Invalid base64-encoded string: number of data characters cannot be 1 more than a multiple of 4'')
      else Inl (OtherError ''Incorrect padding''))"
| "a2b_base64 quad_pos leftchar pads out (c # cs) =
     (if c = CHR ''='' then
        (if quad_pos \<ge> 2 \<and> quad_pos + (pads + 1) \<ge> 4 then Inr (rev out)
         else a2b_base64 quad_pos leftchar (if quad_pos \<ge> 2 then pads + 1 else pads) out cs)
      else
        (case b64_value c of
           None \<Rightarrow> a2b_base64 quad_pos leftchar pads out cs
         | Some v \<Rightarrow>
             if quad_pos = 0 then a2b_base64 1 v 0 out cs
             else if quad_pos = 1 then
               a2b_base64 2 (v mod 16) 0 (byte (leftchar * 4 + v div 16) # out) cs
             else if quad_pos = 2 then
               a2b_base64 3 (v mod 4) 0 (byte (leftchar * 16 + v div 4) # out) cs
             else a2b_base64 0 0 0 (byte (leftchar * 64 + v) # out) cs))"

definition b64decode_ref :: "string \<Rightarrow> exn + string" where
  "b64decode_ref s = a2b_base64 0 0 0 [] s"

section \<open>Reference model of the library: JSON\<close>

text \<open>
  \<^verbatim>\<open>json.dumps\<close> with the default separators and \<^verbatim>\<open>ensure_ascii\<close>: every character
  outside the printable ASCII range is written as an escape.
\<close>

definition hex_digit :: "int \<Rightarrow> char" where
  "hex_digit n = ''0123456789abcdef'' ! nat n"

definition quote :: char where
  "quote = CHR 0x22"

definition backslash :: char where
  "backslash = CHR 0x5C"

definition escape_char :: "char \<Rightarrow> string" where
  "escape_char c =
     (let n = code c in
      if c = quote then [backslash, quote]
      else if c = backslash then [backslash, backslash]
      else if n = 10 then [backslash, CHR ''n'']
      else if n = 13 then [backslash, CHR ''r'']
      else if n = 9 then [backslash, CHR ''t'']
      else if n = 8 then [backslash, CHR ''b'']
      else if n = 12 then [backslash, CHR ''f'']
      else if 32 \<le> n \<and> n \<le> 126 then [c]
      else [backslash, CHR ''u'', CHR ''0'', CHR ''0'', hex_digit (n div 16), hex_digit (n mod 16)])"

definition dumps_str :: "string \<Rightarrow> string" where
  "dumps_str s = [quote] @ concat (map escape_char s) @ [quote]"

fun dumps :: "json \<Rightarrow> string"
  and dumps_elems :: "json list \<Rightarrow> string"
  and dumps_items :: "(string \<times> json) list \<Rightarrow> string" where
  "dumps JNull = ''null''"
| "dumps (JBool b) = (if b then ''true'' else ''false'')"
| "dumps (JInt i) = str_int i"
| "dumps (JStr s) = dumps_str s"
| "dumps (JArr xs) = ''['' @ dumps_elems xs @ '']''"
| "dumps (JObj kvs) = ''{'' @ dumps_items kvs @ ''}''"
| "dumps_elems [] = []"
| "dumps_elems [x] = dumps x"
| "dumps_elems (x # y # xs) = dumps x @ '', '' @ dumps_elems (y # xs)"
| "dumps_items [] = []"
| "dumps_items [(k, v)] = dumps_str k @ '': '' @ dumps v"
| "dumps_items ((k, v) # kv # kvs) = dumps_str k @ '': '' @ dumps v @ '', '' @ dumps_items (kv # kvs)"

text \<open>\<^verbatim>\<open>sort_keys=True\<close>: the items of every dict in ascending order of their keys.\<close>

fun str_le :: "string \<Rightarrow> string \<Rightarrow> bool" where
  "str_le [] t = True"
| "str_le (a # s) [] = False"
| "str_le (a # s) (b # t) = (code a < code b \<or> (a = b \<and> str_le s t))"

fun insert_item :: "string \<times> json \<Rightarrow> (string \<times> json) list \<Rightarrow> (string \<times> json) list" where
  "insert_item kv [] = [kv]"
| "insert_item kv (x # xs) = (if str_le (fst kv) (fst x) then kv # x # xs else x # insert_item kv xs)"

definition sort_items :: "(string \<times> json) list \<Rightarrow> (string \<times> json) list" where
  "sort_items kvs = foldr insert_item kvs []"

fun sorted_keys :: "json \<Rightarrow> json"
  and sorted_keys_elems :: "json list \<Rightarrow> json list"
  and sorted_keys_items :: "(string \<times> json) list \<Rightarrow> (string \<times> json) list" where
  "sorted_keys (JArr xs) = JArr (sorted_keys_elems xs)"
| "sorted_keys (JObj kvs) = JObj (sort_items (sorted_keys_items kvs))"
| "sorted_keys JNull = JNull"
| "sorted_keys (JBool b) = JBool b"
| "sorted_keys (JInt i) = JInt i"
| "sorted_keys (JStr s) = JStr s"
| "sorted_keys_elems [] = []"
| "sorted_keys_elems (x # xs) = sorted_keys x # sorted_keys_elems xs"
| "sorted_keys_items [] = []"
| "sorted_keys_items ((k, v) # kvs) = (k, sorted_keys v) # sorted_keys_items kvs"

definition json_dumps_ref :: "bool \<Rightarrow> json \<Rightarrow> exn + string" where
  "json_dumps_ref sort_keys v = Inr (dumps (if sort_keys then sorted_keys v else v))"

text \<open>
  \<^verbatim>\<open>json.loads\<close>: a recursive-descent parser.  \<open>JSONDecodeError\<close> is a ValueError.  A number
  with a fraction or an exponent, and an escape beyond code point 255, stop with an
  error of the model's own.
\<close>

definition is_json_ws :: "char \<Rightarrow> bool" where
  "is_json_ws c = (code c \<in> {32, 9, 10, 13})"

definition skip_ws :: "string \<Rightarrow> string" where
  "skip_ws s = dropWhile is_json_ws s"

definition hex_val :: "char \<Rightarrow> int option" where
  "hex_val c =
     (let n = code c in
      if 48 \<le> n \<and> n \<le> 57 then Some (n - 48)
      else if 97 \<le> n \<and> n \<le> 102 then Some (n - 87)
      else if 65 \<le> n \<and> n \<le> 70 then Some (n - 55)
      else None)"

definition hex4 :: "string \<Rightarrow> int option" where
  "hex4 s =
     (case map hex_val s of
        [Some a, Some b, Some c, Some d] \<Rightarrow> Some (((a * 16 + b) * 16 + c) * 16 + d)
      | _ \<Rightarrow> None)"

definition simple_escape :: "char \<Rightarrow> char option" where
  "simple_escape e =
     (if e = quote then Some quote
      else if e = backslash then Some backslash
      else if e = CHR ''/'' then Some CHR ''/''
      else if e = CHR ''b'' then Some (byte 8)
      else if e = CHR ''f'' then Some (byte 12)
      else if e = CHR ''n'' then Some (byte 10)
      else if e = CHR ''r'' then Some (byte 13)
      else if e = CHR ''t'' then Some (byte 9)
      else None)"

text \<open>The text after an opening quote: the decoded string and what follows the closing quote.\<close>

function scanstring :: "string \<Rightarrow> string \<Rightarrow> exn + (string \<times> string)" where
  "scanstring acc [] = Inl (ValueError ''Unterminated string starting at'')"
| "scanstring acc (c # cs) =
     (if c = quote then Inr (rev acc, cs)
      else if c = backslash then
        (case cs of
           [] \<Rightarrow> Inl (ValueError ''Unterminated string starting at'')
         | e # cs' \<Rightarrow>
             if e = CHR ''u'' then
               (case hex4 (take 4 cs') of
                  None \<Rightarrow> Inl (ValueError ''Invalid unicode escape'')
                | Some n \<Rightarrow>
                    if n < 256 then scanstring (byte n # acc) (drop 4 cs')
                    else Inl (OtherError ''code point outside the modelled range''))
             else
               (case simple_escape e of
                  None \<Rightarrow> Inl (ValueError ''Invalid escape'')
                | Some x \<Rightarrow> scanstring (x # acc) cs'))
      else if code c < 32 then Inl (ValueError ''Invalid control character at'')
      else scanstring (c # acc) cs)"
  by pat_completeness auto
termination
  by (relation "measure (\<lambda>(acc, s). length s)") auto

text \<open>
  A number at the head of the text: \<^verbatim>\<open>-?(0|[1-9]\d*)\<close>, an int unless a fraction or an
  exponent follows.
\<close>

definition starts_fraction :: "string \<Rightarrow> bool" where
  "starts_fraction s =
     (case s of
        c # d # _ \<Rightarrow>
          (c = CHR ''.'' \<and> is_digit d)
          \<or> ((c = CHR ''e'' \<or> c = CHR ''E'')
              \<and> (is_digit d \<or> ((d = CHR ''+'' \<or> d = CHR ''-'') \<and> (case drop 2 s of x # _ \<Rightarrow> is_digit x | [] \<Rightarrow> False))))
      | _ \<Rightarrow> False)"

definition scan_digits :: "string \<Rightarrow> (int \<times> string) option" where
  "scan_digits s =
     (case s of
        [] \<Rightarrow> None
      | c # cs \<Rightarrow>
          if c = CHR ''0'' then Some (0, cs)
          else if is_digit c then
            (case digits_val 0 (takeWhile is_digit s) of
               None \<Rightarrow> None
             | Some n \<Rightarrow> Some (n, dropWhile is_digit s))
          else None)"

definition scan_number :: "string \<Rightarrow> exn + (json \<times> string)" where
  "scan_number s =
     (let negative = (case s of c # _ \<Rightarrow> c = CHR ''-'' | [] \<Rightarrow> False) in
      case scan_digits (if negative then tl s else s) of
        None \<Rightarrow> Inl (ValueError ''Expecting value'')
      | Some (n, rest) \<Rightarrow>
          if starts_fraction rest then Inl (OtherError ''float outside the model'')
          else Inr (JInt (if negative then - n else n), rest))"

text \<open>
  \<^verbatim>\<open>dict(pairs)\<close>: a repeated key keeps its first position and takes the last value.
\<close>

fun dict_set :: "string \<Rightarrow> json \<Rightarrow> (string \<times> json) list \<Rightarrow> (string \<times> json) list" where
  "dict_set k v [] = [(k, v)]"
| "dict_set k v (x # xs) = (if fst x = k then (k, v) # xs else x # dict_set k v xs)"

definition dict_of :: "(string \<times> json) list \<Rightarrow> (string \<times> json) list" where
  "dict_of pairs = fold (\<lambda>(k, v). dict_set k v) pairs []"

text \<open>
  The value at the head of the text (\<open>scan_once\<close>), the elements of an array after its
  bracket, and the members of an object after its brace; \<open>fuel\<close> bounds the number of
  calls, and the length of the text is enough.
\<close>

fun scan_once :: "nat \<Rightarrow> string \<Rightarrow> exn + (json \<times> string)"
  and scan_elems :: "nat \<Rightarrow> json list \<Rightarrow> string \<Rightarrow> exn + (json \<times> string)"
  and scan_members :: "nat \<Rightarrow> (string \<times> json) list \<Rightarrow> string \<Rightarrow> exn + (json \<times> string)" where
  "scan_once 0 s = Inl (OtherError ''maximum recursion depth exceeded'')"
| "scan_once (Suc fuel) s =
     (case s of
        [] \<Rightarrow> Inl (ValueError ''Expecting value'')
      | c # cs \<Rightarrow>
          if c = quote then try_bind (scanstring [] cs) (\<lambda>(t, rest). Inr (JStr t, rest))
          else if c = CHR ''{'' then
            (case skip_ws cs of
               [] \<Rightarrow> Inl (ValueError ''Expecting property name enclosed in double quotes'')
             | d # ds \<Rightarrow>
                 if d = CHR ''}'' then Inr (JObj [], ds)
                 else scan_members fuel [] (d # ds))
          else if c = CHR ''['' then
            (case skip_ws cs of
               [] \<Rightarrow> Inl (ValueError ''Expecting value'')
             | d # ds \<Rightarrow>
                 if d = CHR '']'' then Inr (JArr [], ds)
                 else scan_elems fuel [] (d # ds))
          else if prefix ''null'' s then Inr (JNull, drop 4 s)
          else if prefix ''true'' s then Inr (JBool True, drop 4 s)
          else if prefix ''false'' s then Inr (JBool False, drop 5 s)
          else if prefix ''NaN'' s \<or> prefix ''Infinity'' s \<or> prefix ''-Infinity'' s
            then Inl (OtherError ''float outside the model'')
          else scan_number s)"
| "scan_elems 0 acc s = Inl (OtherError ''maximum recursion depth exceeded'')"
| "scan_elems (Suc fuel) acc s =
     try_bind (scan_once fuel s) (\<lambda>(v, rest).
       (case skip_ws rest of
          [] \<Rightarrow> Inl (ValueError ''Expecting , delimiter'')
        | d # ds \<Rightarrow>
            if d = CHR '']'' then Inr (JArr (rev (v # acc)), ds)
            else if d = CHR '','' then scan_elems fuel (v # acc) (skip_ws ds)
            else Inl (ValueError ''Expecting , delimiter'')))"
| "scan_members 0 acc s = Inl (OtherError ''maximum recursion depth exceeded'')"
| "scan_members (Suc fuel) acc s =
     (case s of
        [] \<Rightarrow> Inl (ValueError ''Expecting property name enclosed in double quotes'')
      | c # cs \<Rightarrow>
          if c \<noteq> quote then Inl (ValueError ''Expecting property name enclosed in double quotes'')
          else
            try_bind (scanstring [] cs) (\<lambda>(k, rest).
              (case skip_ws rest of
                 [] \<Rightarrow> Inl (ValueError ''Expecting : delimiter'')
               | d # ds \<Rightarrow>
                   if d \<noteq> CHR '':'' then Inl (ValueError ''Expecting : delimiter'')
                   else
                     try_bind (scan_once fuel (skip_ws ds)) (\<lambda>(v, rest').
                       (case skip_ws rest' of
                          [] \<Rightarrow> Inl (ValueError ''Expecting , delimiter'')
                        | x # xs \<Rightarrow>
                            if x = CHR ''}'' then Inr (JObj (dict_of (rev ((k, v) # acc))), xs)
                            else if x = CHR '','' then scan_members fuel ((k, v) # acc) (skip_ws xs)
                            else Inl (ValueError ''Expecting , delimiter''))))))"

definition json_loads_ref :: "string \<Rightarrow> exn + json" where
  "json_loads_ref s =
     try_bind (scan_once (Suc (length s)) (skip_ws s)) (\<lambda>(v, rest).
       if skip_ws rest = [] then Inr v else Inl (ValueError ''Extra data''))"

section \<open>Reference model of the library: ISO output\<close>

text \<open>
  \<^verbatim>\<open>datetime.isoformat\<close>: the calendar date of a day number as the library computes it
  (\<^verbatim>\<open>_ord2ymd\<close>), then the fields in fixed width; the microseconds are written only when
  they are not zero, the offset only for an aware value.
\<close>

definition ord2ymd :: "int \<Rightarrow> int \<times> int \<times> int" where
  "ord2ymd ordinal =
     (let n = ordinal - 1;
          n400 = n div 146097; n = n mod 146097;
          n100 = n div 36524; n = n mod 36524;
          n4 = n div 1461; n = n mod 1461;
          n1 = n div 365; n = n mod 365;
          year = n400 * 400 + 1 + n100 * 100 + n4 * 4 + n1
      in if n1 = 4 \<or> n100 = 4 then (year - 1, 12, 31)
         else
           (let month = the (find (\<lambda>m. n < days_before_month year (m + 1)) [1, 2, 3, 4, 5, 6, 7, 8, 9, 10, 11, 12])
            in (year, month, n - days_before_month year month + 1)))"

function zero_pad :: "nat \<Rightarrow> string \<Rightarrow> string" where
  "zero_pad w s = (if length s < w then zero_pad w (CHR ''0'' # s) else s)"
  by pat_completeness auto
termination
  by (relation "measure (\<lambda>(w, s). w - length s)") auto

definition fixed :: "nat \<Rightarrow> int \<Rightarrow> string" where
  "fixed w n = zero_pad w (str_int n)"

definition isoformat_ref :: "datetime \<Rightarrow> string" where
  "isoformat_ref d =
     (let t = micros d;
          day = t div 86400000000; r = t mod 86400000000;
          us = r mod 1000000; s = r div 1000000;
          (y, m, dd) = ord2ymd (day + 1);
          off = (case tzoffset d of
                   None \<Rightarrow> []
                 | Some ofs \<Rightarrow>
                     (if ofs < 0 then ''-'' else ''+'')
                       @ fixed 2 (\<bar>ofs\<bar> div 3600000000) @ '':'' @ fixed 2 (\<bar>ofs\<bar> div 60000000 mod 60))
      in fixed 4 y @ ''-'' @ fixed 2 m @ ''-'' @ fixed 2 dd @ ''T''
           @ fixed 2 (s div 3600) @ '':'' @ fixed 2 (s div 60 mod 60) @ '':'' @ fixed 2 (s mod 60)
           @ (if us = 0 then [] else ''.'' @ fixed 6 us) @ off)"

section \<open>Notions used to state the license round trip\<close>

text \<open>
  The payload that \<^verbatim>\<open>generate_license_key\<close> signs and encodes: the license data with
  its signature.
\<close>

definition issued_payload ::
  "pylib \<Rightarrow> string \<Rightarrow> host \<Rightarrow> int \<Rightarrow> string \<Rightarrow> string \<Rightarrow> int \<Rightarrow> exn + json" where
  "issued_payload L secret h t0 user_email license_type days_valid =
     try_bind (add_days t0 days_valid) (\<lambda>expiry_date.
     try_bind (get_machine_id L h) (\<lambda>machine_id.
     try_bind (json_dumps L True (license_data L user_email license_type expiry_date machine_id)) (\<lambda>data_string.
     try_bind (str_encode L secret) (\<lambda>secret_bytes.
     try_bind (str_encode L data_string) (\<lambda>data_bytes.
       Inr (JObj [(''data'', license_data L user_email license_type expiry_date machine_id),
                  (''signature'', JStr (hmac_sha256_hexdigest L secret_bytes data_bytes))]))))))"

text \<open>The text of a key: the payload as JSON, UTF-8 and base64.\<close>

definition encode_payload :: "pylib \<Rightarrow> json \<Rightarrow> exn + string" where
  "encode_payload L p =
     try_bind (json_dumps L False p) (\<lambda>license_json.
     try_bind (str_encode L license_json) (\<lambda>json_bytes.
     bytes_decode L (b64encode L json_bytes)))"

section \<open>A sample license\<close>

text \<open>
  A standard license for \<^verbatim>\<open>a@b.com\<close>, valid 365 days, issued at 2025-03-10T12:00:00 on the
  first machine; the second machine has another id.
\<close>

definition sample_host :: host where
  "sample_host = \<lparr>hostname = ''support-pc'', system = ''Windows'', machine = ''AMD64'', mac = 123456789012345\<rparr>"

definition other_host :: host where
  "other_host = \<lparr>hostname = ''laptop-7'', system = ''Linux'', machine = ''x86_64'', mac = 98765432101234\<rparr>"

definition issue_time :: int where
  "issue_time = 63877204800000000"

definition sample_expiry :: int where
  "sample_expiry = 63908740800000000"

definition sample_data :: json where
  "sample_data =
     JObj [(''email'', JStr ''a@b.com''), (''type'', JStr ''standard''),
           (''expires'', JStr ''2026-03-10T12:00:00''), (''machine_id'', JStr ''9a22927aa30b0e83''),
           (''version'', JStr ''1.0''), (''features'', features_of True True False 5)]"

definition sample_signature :: string where
  "sample_signature = ''d5615130769eb6660185dd5bb636b1b35e52e063b928786b1a6df216ec775a77''"

definition sample_payload :: json where
  "sample_payload = JObj [(''data'', sample_data), (''signature'', JStr sample_signature)]"

text \<open>The canonical JSON of the sample data, the message of its HMAC.\<close>

definition sample_data_string :: string where
  \<open>sample_data_string =
     ''{"email": "a@b.com", "expires": "2026-03-10T12:00:00", "features": {"api'' @
     ''_access": true, "assign_tickets": true, "comment_tickets": true, "create'' @
     ''_tickets": true, "export_data": true, "max_users": 5, "priority_support"'' @
     '': false, "search_tickets": true}, "machine_id": "9a22927aa30b0e83", "typ'' @
     ''e": "standard", "version": "1.0"}''\<close>

definition sample_key :: string where
  "sample_key =
     ''eyJkYXRhIjogeyJlbWFpbCI6ICJhQGIuY29tIiwgInR5cGUiOiAic3RhbmRhcmQiLCAiZXhw'' @
     ''aXJlcyI6ICIyMDI2LTAzLTEwVDEyOjAwOjAwIiwgIm1hY2hpbmVfaWQiOiAiOWEyMjkyN2Fh'' @
     ''MzBiMGU4MyIsICJ2ZXJzaW9uIjogIjEuMCIsICJmZWF0dXJlcyI6IHsiY3JlYXRlX3RpY2tl'' @
     ''dHMiOiB0cnVlLCAiY29tbWVudF90aWNrZXRzIjogdHJ1ZSwgImFzc2lnbl90aWNrZXRzIjog'' @
     ''dHJ1ZSwgInNlYXJjaF90aWNrZXRzIjogdHJ1ZSwgImV4cG9ydF9kYXRhIjogdHJ1ZSwgImFw'' @
     ''aV9hY2Nlc3MiOiB0cnVlLCAicHJpb3JpdHlfc3VwcG9ydCI6IGZhbHNlLCAibWF4X3VzZXJz'' @
     ''IjogNX19LCAic2lnbmF0dXJlIjogImQ1NjE1MTMwNzY5ZWI2NjYwMTg1ZGQ1YmI2MzZiMWIz'' @
     ''NWU1MmUwNjNiOTI4Nzg2YjFhNmRmMjE2ZWM3NzVhNzcifQ==''"

text \<open>
  Three alterations of one character of the key: character 11, \<open>g\<close> to \<open>J\<close>, turns the
  space after \<^verbatim>\<open>"data":\<close> into a tab; character 544, \<open>N\<close> to \<open>M\<close>, turns the last but one
  digit of the signature from 7 into 3; character 0, \<open>e\<close> to \<open>A\<close>, turns the opening
  brace into a control character.
\<close>

definition tab_key :: string where
  "tab_key = sample_key[11 := CHR ''J'']"

definition forged_key :: string where
  "forged_key = sample_key[544 := CHR ''M'']"

definition garbled_key :: string where
  "garbled_key = sample_key[0 := CHR ''A'']"

section \<open>Reference model of the library: digests\<close>

text \<open>
  SHA-256 and HMAC-SHA-256 are not computed in the model.  The reference library holds
  the hex digests that \<^verbatim>\<open>hashlib\<close> and \<^verbatim>\<open>hmac\<close> return for the three messages that occur
  when the sample license is issued and validated: the machine strings of the two
  hosts, and the canonical JSON of the sample data under the license secret.  Elsewhere
  it returns the empty text, which is no digest.
\<close>

definition sha256_hexdigest_ref :: "string \<Rightarrow> string" where
  "sha256_hexdigest_ref m =
     (if m = ''support-pc-Windows-AMD64-123456789012345''
        then ''9a22927aa30b0e838a9c24c87c41b4bee4974c5e4a251b73a9009b243e33c21e''
      else if m = ''laptop-7-Linux-x86_64-98765432101234''
        then ''b7c6e179bc950406b06b0fd4ed3ad4bbf26d181c20798cae580e1d3f2a6bad3e''
      else [])"

definition hmac_sha256_hexdigest_ref :: "string \<Rightarrow> string \<Rightarrow> string" where
  "hmac_sha256_hexdigest_ref k m =
     (if k = license_secret \<and> m = sample_data_string then sample_signature else [])"

text \<open>The reference library.\<close>

definition ref_lib :: pylib where
  "ref_lib =
     \<lparr>str_encode = utf8_encode, bytes_decode = utf8_decode,
      b64encode = b64encode_ref, b64decode = b64decode_ref,
      json_dumps = json_dumps_ref, json_loads = json_loads_ref,
      hmac_sha256_hexdigest = hmac_sha256_hexdigest_ref, sha256_hexdigest = sha256_hexdigest_ref,
      fromisoformat = fromisoformat_ref, isoformat = isoformat_ref\<rparr>"

(*DEFS_END*)

section \<open>Properties of the string operations\<close>


section \<open>Transition keyword matching\<close>

text \<open>
  C2 (as stated): on the transition set Start Progress, Resolve Issue, Close Issue the
  close action selects Close Issue, the resolve action selects Resolve Issue and the
  reopen action finds no matching transition.  The statement fails: the close keywords
  include \<open>resolve\<close>, so Resolve Issue is the first close candidate, and the reopen
  keywords include \<open>start\<close>, so Start Progress is a reopen candidate.
\<close>

theorem C2_counterexample:
  "\<not> (close_ticket (Some scenario_transitions) (Some True) = Selected close_issue
      \<and> resolve_ticket (Some scenario_transitions) = Selected resolve_issue
      \<and> open_ticket (Some scenario_transitions) = Silent)"
  by code_simp

text \<open>
  C2 (amended): on that transition set the close action of the modular manager finds
  two candidates and asks for confirmation; confirmed, it applies the first one, Resolve
  Issue, and declined or cancelled it applies none.  The resolve action selects Resolve
  Issue.  The reopen action of the enhanced variant selects Start Progress.
\<close>

theorem C2_transition_matching:
  "close_ticket (Some scenario_transitions) (Some True) = Selected resolve_issue
   \<and> close_ticket (Some scenario_transitions) (Some False) = Cancelled
   \<and> close_ticket (Some scenario_transitions) None = Cancelled
   \<and> resolve_ticket (Some scenario_transitions) = Selected resolve_issue
   \<and> open_ticket (Some scenario_transitions) = Selected start_progress"
  by code_simp

section \<open>The hide-completed filter\<close>

text \<open>
  In the enhanced variant the completion test is substring containment: with the toggle
  on and an ownership filter other than All Open, an issue is kept exactly when it passes
  the ownership filter and its lowercased status name contains none of the six words.
\<close>

lemma keeps_hide_completed:
  "ticket_filter \<noteq> ''All Open'' \<Longrightarrow>
   keeps ticket_filter True user_email issue
     = (passes_main_filter ticket_filter user_email issue \<and> \<not> is_completed issue)"
  by (simp add: keeps_def)

text \<open>
  In the modular manager the test is equality with one of the six words.
\<close>

lemma sf_keeps_hide_completed:
  "sf_keeps ticket_filter issue_type_filter True user_email issue
     = (sf_keeps ticket_filter issue_type_filter False user_email issue
        \<and> status_name issue \<notin> set completed_statuses)"
  by (simp add: sf_keeps_def Let_def)

text \<open>
  C3: with the hide-completed toggle on and an ownership filter other than All Open, the
  filter drops every ticket whose lowercased status name contains one of done, closed,
  resolved, complete, completed, finished as a substring.  The modular
  \<^verbatim>\<open>SearchFilterManager.filter_tickets\<close> breaks this: a ticket in status
  \<^verbatim>\<open>Closed - Duplicate\<close>, whose lowercased name contains \<open>closed\<close>, is kept with the toggle
  on, while the enhanced variant drops the same ticket.
\<close>

theorem C3_modular_filter_keeps_completed:
  "is_completed closed_duplicate
   \<and> sf_filter_tickets [closed_duplicate] ''All Tickets'' ''All'' True ''agent@example.com''
       = Some [closed_duplicate]
   \<and> filter_tickets [closed_duplicate] ''All Tickets'' True ''agent@example.com'' = Some []"
  by code_simp

section \<open>SLA highlighting, flat threshold\<close>

lemma hours_threshold: "(total_seconds x / 3600 > 96) = (x > 96 * 3600 * 1000000)"
proof -
  have "(real_of_int x / 1000000 / 3600 > 96) = (real_of_int x > 345600000000)"
    by (simp add: field_simps)
  also have "\<dots> = (x > 345600000000)"
    by linarith
  finally show ?thesis by (simp add: total_seconds_def)
qed

lemma sla_elapsed:
  assumes "\<not> any_in completed_statuses (status_name issue)" "created issue = Some c" "c \<noteq> []"
    "f (replace_chr CHR ''Z'' ''+00:00'' c) = Inr d"
  shows "is_sla_missed f clk issue = (total_seconds (elapsed_micros clk d) / 3600 > 96)"
  using assms
  by (cases "tzoffset d")
     (simp_all add: is_sla_missed_def elapsed_micros_def now_def dt_sub_def Let_def algebra_simps)

text \<open>
  C5: in the enhanced variant a ticket whose status name contains a completed word is
  never flagged; a ticket whose status name contains none and whose created timestamp
  parses is flagged exactly when more than 96 hours have elapsed since creation; and
  the flag does not depend on the ticket's priority.
\<close>

theorem C5_sla_flat_threshold:
  "(any_in completed_statuses (status_name issue) \<longrightarrow> \<not> is_sla_missed f clk issue)
   \<and> (\<not> any_in completed_statuses (status_name issue) \<and> created issue = Some c \<and> c \<noteq> []
        \<and> f (replace_chr CHR ''Z'' ''+00:00'' c) = Inr d
      \<longrightarrow> (is_sla_missed f clk issue \<longleftrightarrow> 96 * 3600 * 1000000 < elapsed_micros clk d))
   \<and> is_sla_missed f clk (issue\<lparr>priority := p\<rparr>) = is_sla_missed f clk issue"
proof (intro conjI impI)
  assume "any_in completed_statuses (status_name issue)"
  then show "\<not> is_sla_missed f clk issue" by (simp add: is_sla_missed_def)
next
  assume "\<not> any_in completed_statuses (status_name issue) \<and> created issue = Some c \<and> c \<noteq> []
        \<and> f (replace_chr CHR ''Z'' ''+00:00'' c) = Inr d"
  then show "is_sla_missed f clk issue \<longleftrightarrow> 96 * 3600 * 1000000 < elapsed_micros clk d"
    using sla_elapsed [of issue c f d clk] hours_threshold [of "elapsed_micros clk d"] by simp
next
  show "is_sla_missed f clk (issue\<lparr>priority := p\<rparr>) = is_sla_missed f clk issue"
    by (simp add: is_sla_missed_def status_name_def)
qed

theorem C5_witness:
  "\<not> any_in completed_statuses (status_name open_ticket_sample)
   \<and> created open_ticket_sample = Some ''2025-01-06T09:00:00.000Z''
   \<and> fromisoformat_ref (replace_chr CHR ''Z'' ''+00:00'' ''2025-01-06T09:00:00.000Z'')
        = Inr \<lparr>tzoffset = Some 0, micros = 63871750800000000\<rparr>
   \<and> is_sla_missed fromisoformat_ref clock_96h01 open_ticket_sample
   \<and> \<not> is_sla_missed fromisoformat_ref clock_95h59 open_ticket_sample
   \<and> any_in completed_statuses (status_name closed_duplicate)
   \<and> \<not> is_sla_missed fromisoformat_ref clock_96h01 closed_duplicate"
proof -
  let ?d = "\<lparr>tzoffset = Some 0, micros = 63871750800000000\<rparr>"
  have h1: "\<not> any_in completed_statuses (status_name open_ticket_sample)" by code_simp
  have h2: "created open_ticket_sample = Some ''2025-01-06T09:00:00.000Z''"
    by (simp add: open_ticket_sample_def)
  have h3: "fromisoformat_ref (replace_chr CHR ''Z'' ''+00:00'' ''2025-01-06T09:00:00.000Z'') = Inr ?d"
    by code_simp
  have h4: "96 * 3600 * 1000000 < elapsed_micros clock_96h01 ?d"
    by (simp add: elapsed_micros_def clock_96h01_def)
  have h5: "\<not> 96 * 3600 * 1000000 < elapsed_micros clock_95h59 ?d"
    by (simp add: elapsed_micros_def clock_95h59_def)
  have h6: "any_in completed_statuses (status_name closed_duplicate)" by code_simp
  have a: "is_sla_missed fromisoformat_ref clock_96h01 open_ticket_sample"
    using C5_sla_flat_threshold [of open_ticket_sample fromisoformat_ref clock_96h01
        "''2025-01-06T09:00:00.000Z''" ?d None] h1 h2 h3 h4 by simp
  have b: "\<not> is_sla_missed fromisoformat_ref clock_95h59 open_ticket_sample"
    using C5_sla_flat_threshold [of open_ticket_sample fromisoformat_ref clock_95h59
        "''2025-01-06T09:00:00.000Z''" ?d None] h1 h2 h3 h5 by simp
  have c: "\<not> is_sla_missed fromisoformat_ref clock_96h01 closed_duplicate"
    using C5_sla_flat_threshold [of closed_duplicate fromisoformat_ref clock_96h01
        "''2025-01-06T09:00:00.000Z''" ?d None] h6 by simp
  show ?thesis using h1 h2 h3 h6 a b c by simp
qed

section \<open>Due reminders\<close>

lemma due_head:
  assumes "well_formed f r"
  shows "get_due_reminders f \<lparr>tzoffset = None, micros = t\<rparr> (r # rs)
         = try_bind (get_due_reminders f \<lparr>tzoffset = None, micros = t\<rparr> rs)
             (\<lambda>ds. Inr (if is_due_spec f t r then r # ds else ds))"
proof -
  from assms obtain d where d: "f (due_date r) = Inr d" "tzoffset d = None"
    by (auto simp: well_formed_def naive_iso_def split: sum.splits)
  show ?thesis
  proof (cases "snoozed_until r")
    case None
    then show ?thesis using d
      by (cases "get_due_reminders f \<lparr>tzoffset = None, micros = t\<rparr> rs")
         (simp_all add: try_bind_def is_due_spec_def reached_def dt_ge_def)
  next
    case (Some s)
    show ?thesis
    proof (cases "s = []")
      case True
      then show ?thesis using d Some
        by (cases "get_due_reminders f \<lparr>tzoffset = None, micros = t\<rparr> rs")
           (simp_all add: try_bind_def is_due_spec_def reached_def dt_ge_def)
    next
      case False
      with assms Some obtain sd where sd: "f s = Inr sd" "tzoffset sd = None"
        by (auto simp: well_formed_def naive_iso_def split: sum.splits)
      then show ?thesis using d Some False
        by (cases "get_due_reminders f \<lparr>tzoffset = None, micros = t\<rparr> rs")
           (auto simp add: try_bind_def is_due_spec_def reached_def dt_ge_def dt_less_def)
    qed
  qed
qed

text \<open>
  C6: on stored reminders whose timestamps are ISO texts of naive datetimes,
  \<^verbatim>\<open>get_due_reminders\<close> returns, in stored order, exactly the reminders that are not
  completed, whose snooze time (if set) has been reached and whose due date has been
  reached; a timestamp equal to the current reading counts as reached.
\<close>

theorem C6_due_reminders:
  "\<forall>r\<in>set rs. well_formed f r \<Longrightarrow>
   get_due_reminders f \<lparr>tzoffset = None, micros = t\<rparr> rs = Inr (filter (is_due_spec f t) rs)"
proof (induction rs)
  case Nil
  then show ?case by simp
next
  case (Cons r rs)
  then have IH: "get_due_reminders f \<lparr>tzoffset = None, micros = t\<rparr> rs = Inr (filter (is_due_spec f t) rs)"
    and wf: "well_formed f r" by simp_all
  show ?case
    unfolding due_head [OF wf] IH by (simp add: try_bind_def)
qed

theorem C6_witness:
  "well_formed fromisoformat_ref reminder_due
   \<and> well_formed fromisoformat_ref reminder_snoozed
   \<and> well_formed fromisoformat_ref reminder_done
   \<and> get_due_reminders fromisoformat_ref \<lparr>tzoffset = None, micros = noon\<rparr>
        [reminder_due, reminder_snoozed, reminder_done] = Inr [reminder_due]"
proof -
  have wf: "\<forall>r\<in>set [reminder_due, reminder_snoozed, reminder_done]. well_formed fromisoformat_ref r"
    by code_simp
  have f: "filter (is_due_spec fromisoformat_ref noon) [reminder_due, reminder_snoozed, reminder_done]
             = [reminder_due]"
    by code_simp
  show ?thesis
    using C6_due_reminders [OF wf, of noon] wf f by simp
qed

section \<open>Comment monitor\<close>

lemma ticket_keys_iff:
  "k \<in> ticket_keys ts \<longleftrightarrow> k \<noteq> [] \<and> (\<exists>tk\<in>set ts. key tk = Some k)"
proof (induction ts)
  case Nil
  then show ?case by simp
next
  case (Cons tk ts)
  then show ?case by (cases "key tk") auto
qed

declare ticket_keys.simps [simp del]

lemma ticket_keys_Nil: "ticket_keys [] = {}"
  by (simp add: ticket_keys.simps)

lemma ticket_keys_Cons:
  "k \<in> ticket_keys (tk # ts) \<longleftrightarrow> (k \<noteq> [] \<and> key tk = Some k) \<or> k \<in> ticket_keys ts"
  by (auto simp: ticket_keys_iff)

lemma scan_ticket_step:
  "scan_ticket fetch tk m =
     m\<lparr>known_comments :=
          (\<lambda>k. if k \<noteq> [] \<and> key tk = Some k \<and> fetch k \<noteq> [] then Some (map cid (fetch k))
                else known_comments m k)\<rparr>"
  by (cases "key tk") (auto simp: scan_ticket_def Let_def fun_eq_iff)

lemma scan_fold:
  "fold (scan_ticket fetch) ts m =
     m\<lparr>known_comments :=
          (\<lambda>k. if k \<in> ticket_keys ts \<and> fetch k \<noteq> [] then Some (map cid (fetch k))
                else known_comments m k)\<rparr>"
proof (induction ts arbitrary: m)
  case Nil
  then show ?case by (simp add: ticket_keys_Nil)
next
  case (Cons tk ts)
  have "fold (scan_ticket fetch) (tk # ts) m = fold (scan_ticket fetch) ts (scan_ticket fetch tk m)"
    by simp
  also have "\<dots> = m\<lparr>known_comments :=
          (\<lambda>k. if k \<in> ticket_keys (tk # ts) \<and> fetch k \<noteq> [] then Some (map cid (fetch k))
                else known_comments m k)\<rparr>"
    unfolding Cons.IH scan_ticket_step by (auto simp: fun_eq_iff ticket_keys_Cons)
  finally show ?case .
qed

text \<open>The baseline scan leaves the pending list and the notification count alone.\<close>

lemma scan_silent:
  "new_comments (scan_current_tickets fetch all_tickets m) = new_comments m
   \<and> notifications (scan_current_tickets fetch all_tickets m) = notifications m"
  by (cases all_tickets) (simp_all add: scan_current_tickets_def scan_fold)

lemma check_ticket_fst:
  "fst (check_ticket fetch tk st) =
     (\<lambda>k. if k \<noteq> [] \<and> key tk = Some k \<and> fetch k \<noteq> [] then Some (map cid (fetch k)) else fst st k)"
  by (cases "key tk") (auto simp: check_ticket_def Let_def fun_eq_iff)

text \<open>
  After a check, the entry of every cached ticket whose fetch returned comments holds
  the ids just fetched; the other entries are as before.
\<close>

lemma check_refresh_fold:
  "fst (fold (check_ticket fetch) ts st) =
     (\<lambda>k. if k \<in> ticket_keys ts \<and> fetch k \<noteq> [] then Some (map cid (fetch k)) else fst st k)"
proof (induction ts arbitrary: st)
  case Nil
  then show ?case by (simp add: ticket_keys_Nil)
next
  case (Cons tk ts)
  have "fst (fold (check_ticket fetch) (tk # ts) st)
          = fst (fold (check_ticket fetch) ts (check_ticket fetch tk st))"
    by simp
  also have "\<dots> = (\<lambda>k. if k \<in> ticket_keys (tk # ts) \<and> fetch k \<noteq> [] then Some (map cid (fetch k))
                        else fst st k)"
    unfolding Cons.IH check_ticket_fst by (auto simp: fun_eq_iff ticket_keys_Cons)
  finally show ?case .
qed

lemma check_ticket_snd_same:
  assumes "\<And>k. key tk = Some k \<Longrightarrow> settled fetch (fst st) k"
  shows "snd (check_ticket fetch tk st) = snd st"
  using assms by (cases "key tk") (auto simp: check_ticket_def settled_def Let_def)

lemma check_ticket_settled:
  assumes "settled fetch (fst st) k"
  shows "settled fetch (fst (check_ticket fetch tk st)) k"
  using assms unfolding check_ticket_fst settled_def by auto

lemma check_fold_quiet:
  assumes "\<forall>k. settled fetch (fst st) k"
  shows "snd (fold (check_ticket fetch) ts st) = snd st"
  using assms
proof (induction ts arbitrary: st)
  case Nil
  then show ?case by simp
next
  case (Cons tk ts)
  have s: "\<forall>k. settled fetch (fst (check_ticket fetch tk st)) k"
    using Cons.prems check_ticket_settled by blast
  have "snd (check_ticket fetch tk st) = snd st"
    using Cons.prems by (intro check_ticket_snd_same) auto
  with Cons.IH [OF s] show ?case by simp
qed

lemma check_ticket_new:
  assumes "key tk = Some k0" "k0 \<noteq> []" "fst st k0 = Some (map cid old)" "fetch k0 = old @ [c]"
    "cid c \<notin> cid ` set old"
  shows "snd (check_ticket fetch tk st) =
     snd st @ [\<lparr>ticket_key = k0, ticket_summary = (case summary tk of None \<Rightarrow> [] | Some s \<Rightarrow> s),
                the_comment = c\<rparr>]"
proof -
  have f1: "filter (\<lambda>i. i \<notin> cid ` set old) (map cid old) = []"
    by (induction old) auto
  have f2: "filter (\<lambda>x. cid x = cid c) old = []"
    using assms(5) by (induction old) auto
  show ?thesis
    using assms f1 f2 by (simp add: check_ticket_def Let_def)
qed

lemma check_fold_one:
  assumes "k0 \<in> ticket_keys ts" "fst st k0 = Some (map cid old)" "fetch k0 = old @ [c]"
    "cid c \<notin> cid ` set old" "\<forall>k. k \<noteq> k0 \<longrightarrow> settled fetch (fst st) k"
  shows "\<exists>e. snd (fold (check_ticket fetch) ts st) = snd st @ [e] \<and> ticket_key e = k0 \<and> the_comment e = c"
  using assms
proof (induction ts arbitrary: st)
  case Nil
  then show ?case by (simp add: ticket_keys_Nil)
next
  case (Cons tk ts)
  show ?case
  proof (cases "key tk = Some k0 \<and> k0 \<noteq> []")
    case True
    let ?e = "\<lparr>ticket_key = k0, ticket_summary = (case summary tk of None \<Rightarrow> [] | Some s \<Rightarrow> s),
               the_comment = c\<rparr>"
    have new: "snd (check_ticket fetch tk st) = snd st @ [?e]"
      using True Cons.prems by (intro check_ticket_new) auto
    have "\<forall>k. settled fetch (fst (check_ticket fetch tk st)) k"
    proof
      fix k show "settled fetch (fst (check_ticket fetch tk st)) k"
      proof (cases "k = k0")
        case True
        then show ?thesis using \<open>key tk = Some k0 \<and> k0 \<noteq> []\<close> Cons.prems(3)
          unfolding check_ticket_fst settled_def by auto
      next
        case False
        then show ?thesis using Cons.prems(5) check_ticket_settled by blast
      qed
    qed
    from check_fold_quiet [OF this, of ts] new
    have "snd (fold (check_ticket fetch) (tk # ts) st) = snd st @ [?e]" by simp
    then show ?thesis by auto
  next
    case False
    then have in_ts: "k0 \<in> ticket_keys ts" using Cons.prems(1) by (auto simp: ticket_keys_Cons)
    have same: "snd (check_ticket fetch tk st) = snd st"
      using False Cons.prems(5) in_ts
      by (intro check_ticket_snd_same) (auto simp: ticket_keys_iff)
    have k0': "fst (check_ticket fetch tk st) k0 = Some (map cid old)"
      using False Cons.prems(2) in_ts unfolding check_ticket_fst by (auto simp: ticket_keys_iff)
    have others: "\<forall>k. k \<noteq> k0 \<longrightarrow> settled fetch (fst (check_ticket fetch tk st)) k"
      using Cons.prems(5) check_ticket_settled by blast
    from Cons.IH [OF in_ts k0' Cons.prems(3) Cons.prems(4) others] same
    show ?thesis by simp
  qed
qed

text \<open>
  C7 (as stated): after the baseline scan, a check in which exactly one comment has been
  added to one cached ticket reports exactly one new-comment entry.  The statement
  fails for a ticket that had no comment at the baseline: the scan records no entry for
  it, so its first comment is taken as the new baseline and nothing is reported.
\<close>

theorem C7_counterexample:
  "backend_0 ''ITS-2'' = [] \<and> backend_2 ''ITS-2'' = backend_0 ''ITS-2'' @ [comment_b]
   \<and> backend_2 ''ITS-1'' = backend_0 ''ITS-1''
   \<and> new_comments (monitor_loop backend_0 [backend_2] (Some [ticket_1, ticket_2]) init_monitor) = []
   \<and> notifications (monitor_loop backend_0 [backend_2] (Some [ticket_1, ticket_2]) init_monitor) = 0"
  by (simp add: monitor_loop_def scan_current_tickets_def check_for_new_comments_def
      scan_ticket_def check_ticket_def init_monitor_def backend_0_def backend_2_def
      ticket_1_def ticket_2_def comment_a_def comment_b_def Let_def)

text \<open>
  C7 (amended): the baseline scan raises no notification and adds no pending entry.  On
  the following check, if exactly one comment with a fresh id has been appended to one
  cached ticket that already had at least one comment at the baseline, and no other
  ticket changed, then exactly one new-comment entry is reported, carrying that
  ticket's key and the new comment with its author, and one notification is
  scheduled; after the check the known-id entry of every cached ticket whose fetch
  returned comments holds the ids just fetched.
\<close>

theorem C7_comment_monitor:
  assumes cached: "k0 \<in> ticket_keys ts"
    and had: "fetch0 k0 \<noteq> []"
    and added: "fetch1 k0 = fetch0 k0 @ [c]"
    and fresh: "cid c \<notin> cid ` set (fetch0 k0)"
    and others: "\<forall>k. k \<noteq> k0 \<longrightarrow> fetch1 k = fetch0 k"
  shows "new_comments (monitor_loop fetch0 [] (Some ts) init_monitor) = []
     \<and> notifications (monitor_loop fetch0 [] (Some ts) init_monitor) = 0
     \<and> (\<exists>e. new_comments (monitor_loop fetch0 [fetch1] (Some ts) init_monitor) = [e]
            \<and> ticket_key e = k0 \<and> the_comment e = c)
     \<and> notifications (monitor_loop fetch0 [fetch1] (Some ts) init_monitor) = 1
     \<and> (\<forall>k\<in>ticket_keys ts. fetch1 k \<noteq> [] \<longrightarrow>
           known_comments (monitor_loop fetch0 [fetch1] (Some ts) init_monitor) k
             = Some (map cid (fetch1 k)))"
proof -
  let ?m1 = "scan_current_tickets fetch0 (Some ts) init_monitor"
  let ?st = "fold (check_ticket fetch1) ts (known_comments ?m1, [])"
  have m1: "?m1 = init_monitor\<lparr>known_comments :=
      (\<lambda>k. if k \<in> ticket_keys ts \<and> fetch0 k \<noteq> [] then Some (map cid (fetch0 k)) else None)\<rparr>"
    by (simp add: scan_current_tickets_def scan_fold init_monitor_def fun_eq_iff)
  have init: "new_comments init_monitor = [] \<and> notifications init_monitor = 0"
    by (simp add: init_monitor_def)
  have base: "new_comments ?m1 = [] \<and> notifications ?m1 = 0"
    using scan_silent [of fetch0 "Some ts" init_monitor] init by simp
  have k0: "fst (known_comments ?m1, []) k0 = Some (map cid (fetch0 k0))"
    using cached had by (simp add: m1)
  have rest: "\<forall>k. k \<noteq> k0 \<longrightarrow> settled fetch1 (fst (known_comments ?m1, [])) k"
    using others by (simp add: m1 settled_def)
  from check_fold_one [OF cached k0 added fresh rest]
  obtain e where e: "snd ?st = [e]" "ticket_key e = k0" "the_comment e = c"
    by auto
  have m2: "monitor_loop fetch0 [fetch1] (Some ts) init_monitor
      = ?m1\<lparr>known_comments := fst ?st, new_comments := new_comments ?m1 @ snd ?st,
            notifications := Suc (notifications ?m1)\<rparr>"
    using e(1) by (simp add: monitor_loop_def check_for_new_comments_def Let_def)
  have found: "\<exists>e. new_comments (monitor_loop fetch0 [fetch1] (Some ts) init_monitor) = [e]
      \<and> ticket_key e = k0 \<and> the_comment e = c"
    using e base by (simp add: m2)
  have notified: "notifications (monitor_loop fetch0 [fetch1] (Some ts) init_monitor) = 1"
    using base by (simp add: m2)
  have refreshed: "\<forall>k\<in>ticket_keys ts. fetch1 k \<noteq> [] \<longrightarrow>
      known_comments (monitor_loop fetch0 [fetch1] (Some ts) init_monitor) k = Some (map cid (fetch1 k))"
    by (simp add: m2 check_refresh_fold)
  have m0: "monitor_loop fetch0 [] (Some ts) init_monitor = ?m1"
    by (simp add: monitor_loop_def)
  show ?thesis
    using base found notified refreshed unfolding m0 by blast
qed

theorem C7_witness:
  "''ITS-1'' \<in> ticket_keys [ticket_1, ticket_2]
   \<and> backend_0 ''ITS-1'' \<noteq> []
   \<and> backend_1 ''ITS-1'' = backend_0 ''ITS-1'' @ [comment_b]
   \<and> cid comment_b \<notin> cid ` set (backend_0 ''ITS-1'')
   \<and> backend_1 ''ITS-2'' = backend_0 ''ITS-2''
   \<and> (\<exists>e. new_comments (monitor_loop backend_0 [backend_1] (Some [ticket_1, ticket_2]) init_monitor) = [e]
          \<and> ticket_key e = ''ITS-1'' \<and> the_comment e = comment_b)
   \<and> notifications (monitor_loop backend_0 [backend_1] (Some [ticket_1, ticket_2]) init_monitor) = 1
   \<and> known_comments (monitor_loop backend_0 [backend_1] (Some [ticket_1, ticket_2]) init_monitor) ''ITS-1''
       = Some [''10001'', ''10002'']"
proof -
  have h1: "''ITS-1'' \<in> ticket_keys [ticket_1, ticket_2]"
    by (simp add: ticket_keys.simps ticket_1_def ticket_2_def)
  have h2: "backend_0 ''ITS-1'' \<noteq> []" by (simp add: backend_0_def)
  have h3: "backend_1 ''ITS-1'' = backend_0 ''ITS-1'' @ [comment_b]"
    by (simp add: backend_0_def backend_1_def)
  have h4: "cid comment_b \<notin> cid ` set (backend_0 ''ITS-1'')"
    by (simp add: backend_0_def comment_a_def comment_b_def)
  have h5: "\<forall>k. k \<noteq> ''ITS-1'' \<longrightarrow> backend_1 k = backend_0 k"
    by (simp add: backend_0_def backend_1_def)
  have ids: "map cid (backend_1 ''ITS-1'') = [''10001'', ''10002'']"
    by (simp add: backend_1_def comment_a_def comment_b_def)
  have ne: "backend_1 ''ITS-1'' \<noteq> []" by (simp add: backend_1_def)
  from C7_comment_monitor [OF h1 h2 h3 h4 h5] h1 ne ids
  show ?thesis using h1 h2 h3 h4 h5 by auto
qed

section \<open>AI triage post-processing\<close>

lemma contains_Cons: "contains p cs \<Longrightarrow> contains p (c # cs)"
  by simp
























section \<open>License validation: structure\<close>

lemma try_bind_assoc: "try_bind (try_bind m f) g = try_bind m (\<lambda>x. try_bind (f x) g)"
  by (cases m) (simp_all add: try_bind_def)

lemma try_bind_again:
  "try_bind m (\<lambda>d. try_bind (try_bind m G) (H d)) = try_bind m (\<lambda>d. try_bind (G d) (H d))"
  by (cases m) (simp_all add: try_bind_def)

lemma try_bind_twice:
  "try_bind m (\<lambda>d. try_bind m (\<lambda>x. F d x)) = try_bind m (\<lambda>d. F d d)"
  by (cases m) (simp_all add: try_bind_def)

text \<open>
  Both validators decode the key, read the data, compare the signature and test the
  expiry; the manager then checks the machine.
\<close>

lemma validator_try_decode:
  "LicenseValidator_try L secret t1 t2 k =
     try_bind (decode_payload L k) (\<lambda>p.
     try_bind (subscript p ''data'') (\<lambda>d.
     try_bind (signature_check L secret p) (\<lambda>same.
       if \<not> same then Inr (invalid ''Invalid license signature'')
       else
         try_bind (subscript d ''expires'') (\<lambda>expires.
         try_bind (fromisoformat_json L expires) (\<lambda>expiry_date.
         try_bind (dt_less expiry_date (naive t1)) (\<lambda>expired.
           if expired then Inr (invalid ''License expired'')
           else try_bind (dt_sub expiry_date (naive t2)) (\<lambda>remaining. Inr (accepted d remaining))))))))"
  unfolding LicenseValidator_try_def decode_payload_def signature_check_def accepted_def
  by (simp only: try_bind_assoc try_bind_again try_bind_twice)

lemma manager_try_decode:
  "LicenseManager_try L secret h t1 t2 k =
     try_bind (decode_payload L k) (\<lambda>p.
     try_bind (subscript p ''data'') (\<lambda>d.
     try_bind (signature_check L secret p) (\<lambda>same.
       if \<not> same then Inr (invalid ''Invalid license signature'')
       else
         try_bind (subscript d ''expires'') (\<lambda>expires.
         try_bind (fromisoformat_json L expires) (\<lambda>expiry_date.
         try_bind (dt_less expiry_date (naive t1)) (\<lambda>expired.
           if expired then Inr (invalid ''License expired'')
           else
             try_bind (get_machine_id L h) (\<lambda>current_machine_id.
               if machine_mismatch d current_machine_id
               then Inr (invalid ''License not valid for this machine'')
               else try_bind (dt_sub expiry_date (naive t2)) (\<lambda>remaining. Inr (accepted d remaining)))))))))"
  unfolding LicenseManager_try_def decode_payload_def signature_check_def accepted_def
    machine_mismatch_def
  by (simp only: try_bind_assoc try_bind_again try_bind_twice)

lemma shape_bind:
  assumes "\<And>x. case f x of Inl e \<Rightarrow> True | Inr v \<Rightarrow> valid v \<longleftrightarrow> error v = None"
  shows "case try_bind m f of Inl e \<Rightarrow> True | Inr v \<Rightarrow> valid v \<longleftrightarrow> error v = None"
  using assms by (cases m) (simp_all add: try_bind_def)

lemma shape_if:
  assumes "case a of Inl e \<Rightarrow> True | Inr v \<Rightarrow> valid v \<longleftrightarrow> error v = None"
    and "case b of Inl e \<Rightarrow> True | Inr v \<Rightarrow> valid v \<longleftrightarrow> error v = None"
  shows "case (if c then a else b) of Inl e \<Rightarrow> True | Inr v \<Rightarrow> valid v \<longleftrightarrow> error v = None"
  using assms by simp

lemma shape_invalid:
  "case Inr (invalid msg) of Inl e \<Rightarrow> True | Inr v \<Rightarrow> valid v \<longleftrightarrow> error v = None"
  by (simp add: invalid_def)

lemma shape_accepted:
  "case Inr (accepted d r) of Inl e \<Rightarrow> True | Inr v \<Rightarrow> valid v \<longleftrightarrow> error v = None"
  by (simp add: accepted_def)

lemma validator_try_shape:
  "case LicenseValidator_try L secret t1 t2 k of Inl e \<Rightarrow> True | Inr v \<Rightarrow> valid v \<longleftrightarrow> error v = None"
  unfolding validator_try_decode
  by (intro shape_bind shape_if shape_invalid shape_accepted)

lemma manager_try_shape:
  "case LicenseManager_try L secret h t1 t2 k of Inl e \<Rightarrow> True | Inr v \<Rightarrow> valid v \<longleftrightarrow> error v = None"
  unfolding manager_try_decode
  by (intro shape_bind shape_if shape_invalid shape_accepted)

text \<open>Every result is either valid without an error text, or invalid with one.\<close>

lemma validator_shape:
  "valid (LicenseValidator_validate_license_key L secret t1 t2 k)
     \<longleftrightarrow> error (LicenseValidator_validate_license_key L secret t1 t2 k) = None"
  using validator_try_shape [of L secret t1 t2 k]
  by (cases "LicenseValidator_try L secret t1 t2 k")
     (simp_all add: LicenseValidator_validate_license_key_def invalid_def)

lemma manager_shape:
  "valid (LicenseManager_validate_license_key L secret h t1 t2 k)
     \<longleftrightarrow> error (LicenseManager_validate_license_key L secret h t1 t2 k) = None"
  using manager_try_shape [of L secret h t1 t2 k]
  by (cases "LicenseManager_try L secret h t1 t2 k")
     (simp_all add: LicenseManager_validate_license_key_def invalid_def)

lemma malformed_cases:
  assumes "malformed L k"
  obtains (undecodable) e where "decode_payload L k = Inl e"
  | (no_data) p e where "decode_payload L k = Inr p" "subscript p ''data'' = Inl e"
  | (no_signature) p d e where "decode_payload L k = Inr p" "subscript p ''data'' = Inr d"
      "subscript p ''signature'' = Inl e"
  | (no_expires) p d e where "decode_payload L k = Inr p" "subscript p ''data'' = Inr d"
      "subscript d ''expires'' = Inl e"
  using assms unfolding malformed_def
  by (auto split: sum.splits)

lemma validator_malformed:
  assumes "malformed L k"
  shows "\<not> valid (LicenseValidator_validate_license_key L secret t1 t2 k)"
  using assms
proof (cases rule: malformed_cases)
  case (undecodable e)
  then show ?thesis
    by (simp add: LicenseValidator_validate_license_key_def validator_try_decode try_bind_def invalid_def)
next
  case (no_data p e)
  then show ?thesis
    by (simp add: LicenseValidator_validate_license_key_def validator_try_decode try_bind_def invalid_def)
next
  case (no_signature p d e)
  then show ?thesis
    by (simp add: LicenseValidator_validate_license_key_def validator_try_decode try_bind_def
        signature_check_def invalid_def)
next
  case (no_expires p d e)
  then show ?thesis
    by (cases "signature_check L secret p")
       (simp_all add: LicenseValidator_validate_license_key_def validator_try_decode try_bind_def invalid_def)
qed

lemma manager_malformed:
  assumes "malformed L k"
  shows "\<not> valid (LicenseManager_validate_license_key L secret h t1 t2 k)"
  using assms
proof (cases rule: malformed_cases)
  case (undecodable e)
  then show ?thesis
    by (simp add: LicenseManager_validate_license_key_def manager_try_decode try_bind_def invalid_def)
next
  case (no_data p e)
  then show ?thesis
    by (simp add: LicenseManager_validate_license_key_def manager_try_decode try_bind_def invalid_def)
next
  case (no_signature p d e)
  then show ?thesis
    by (simp add: LicenseManager_validate_license_key_def manager_try_decode try_bind_def
        signature_check_def invalid_def)
next
  case (no_expires p d e)
  then show ?thesis
    by (cases "signature_check L secret p")
       (simp_all add: LicenseManager_validate_license_key_def manager_try_decode try_bind_def invalid_def)
qed

text \<open>What each validator returns on a key that decodes.\<close>

lemma validator_undecodable:
  "decode_payload L k = Inl e \<Longrightarrow>
   LicenseValidator_validate_license_key L secret t1 t2 k
     = invalid (''License validation error: '' @ str_exn e)"
  by (simp add: LicenseValidator_validate_license_key_def validator_try_decode try_bind_def)

lemma manager_undecodable:
  "decode_payload L k = Inl e \<Longrightarrow>
   LicenseManager_validate_license_key L secret h t1 t2 k
     = invalid (''License validation error: '' @ str_exn e)"
  by (simp add: LicenseManager_validate_license_key_def manager_try_decode try_bind_def)

lemma signature_check_data:
  "signature_check L secret p = Inr b \<Longrightarrow> \<exists>d. subscript p ''data'' = Inr d"
  by (cases "subscript p ''data''") (simp_all add: signature_check_def try_bind_def)

lemma validator_mismatch:
  assumes "decode_payload L k = Inr p" "signature_check L secret p = Inr False"
  shows "LicenseValidator_validate_license_key L secret t1 t2 k = invalid ''Invalid license signature''"
proof -
  from signature_check_data [OF assms(2)] obtain d where "subscript p ''data'' = Inr d" ..
  with assms show ?thesis
    by (simp add: LicenseValidator_validate_license_key_def validator_try_decode try_bind_def)
qed

lemma manager_mismatch:
  assumes "decode_payload L k = Inr p" "signature_check L secret p = Inr False"
  shows "LicenseManager_validate_license_key L secret h t1 t2 k = invalid ''Invalid license signature''"
proof -
  from signature_check_data [OF assms(2)] obtain d where "subscript p ''data'' = Inr d" ..
  with assms show ?thesis
    by (simp add: LicenseManager_validate_license_key_def manager_try_decode try_bind_def)
qed

lemma validator_valid_verified:
  assumes "valid (LicenseValidator_validate_license_key L secret t1 t2 k)"
  shows "\<exists>p. decode_payload L k = Inr p \<and> signature_check L secret p = Inr True"
proof (cases "decode_payload L k")
  case (Inl e)
  with assms show ?thesis by (simp add: validator_undecodable invalid_def)
next
  case (Inr p)
  show ?thesis
  proof (cases "subscript p ''data''")
    case (Inl e)
    with Inr assms show ?thesis
      by (simp add: LicenseValidator_validate_license_key_def validator_try_decode try_bind_def invalid_def)
  next
    case d: (Inr d)
    show ?thesis
    proof (cases "signature_check L secret p")
      case (Inl e)
      with Inr d assms show ?thesis
        by (simp add: LicenseValidator_validate_license_key_def validator_try_decode try_bind_def invalid_def)
    next
      case b: (Inr b)
      with Inr d assms have "b"
        by (cases b)
           (simp_all add: LicenseValidator_validate_license_key_def validator_try_decode try_bind_def invalid_def)
      with Inr b show ?thesis by simp
    qed
  qed
qed

lemma manager_valid_verified:
  assumes "valid (LicenseManager_validate_license_key L secret h t1 t2 k)"
  shows "\<exists>p. decode_payload L k = Inr p \<and> signature_check L secret p = Inr True"
proof (cases "decode_payload L k")
  case (Inl e)
  with assms show ?thesis by (simp add: manager_undecodable invalid_def)
next
  case (Inr p)
  show ?thesis
  proof (cases "subscript p ''data''")
    case (Inl e)
    with Inr assms show ?thesis
      by (simp add: LicenseManager_validate_license_key_def manager_try_decode try_bind_def invalid_def)
  next
    case d: (Inr d)
    show ?thesis
    proof (cases "signature_check L secret p")
      case (Inl e)
      with Inr d assms show ?thesis
        by (simp add: LicenseManager_validate_license_key_def manager_try_decode try_bind_def invalid_def)
    next
      case b: (Inr b)
      with Inr d assms have "b"
        by (cases b)
           (simp_all add: LicenseManager_validate_license_key_def manager_try_decode try_bind_def invalid_def)
      with Inr b show ?thesis by simp
    qed
  qed
qed

text \<open>
  A key that decodes, whose signature verifies and whose expiry has not passed is
  accepted by the validator, whatever machine id it carries; the manager accepts it
  unless the machine check fires.
\<close>

lemma validator_accepts:
  assumes "decode_payload L k = Inr p" "subscript p ''data'' = Inr d"
    "signature_check L secret p = Inr True" "subscript d ''expires'' = Inr x"
    "fromisoformat_json L x = Inr ed" "tzoffset ed = None" "t1 \<le> micros ed"
  shows "LicenseValidator_validate_license_key L secret t1 t2 k = accepted d (micros ed - t2)"
  using assms
  by (simp add: LicenseValidator_validate_license_key_def validator_try_decode try_bind_def
      dt_less_def dt_sub_def naive_def)

lemma manager_checks_machine:
  assumes "decode_payload L k = Inr p" "subscript p ''data'' = Inr d"
    "signature_check L secret p = Inr True" "subscript d ''expires'' = Inr x"
    "fromisoformat_json L x = Inr ed" "tzoffset ed = None" "t1 \<le> micros ed"
    "get_machine_id L h = Inr cur"
  shows "LicenseManager_validate_license_key L secret h t1 t2 k =
     (if machine_mismatch d cur then invalid ''License not valid for this machine''
      else accepted d (micros ed - t2))"
  using assms
  by (simp add: LicenseManager_validate_license_key_def manager_try_decode try_bind_def
      dt_less_def dt_sub_def naive_def)

section \<open>License validation never raises\<close>

text \<open>
  C10: \<^verbatim>\<open>validate_license_key\<close> is total over arbitrary input strings.  In both classes
  every result carries a boolean \<open>valid\<close> that is true exactly when there is no error
  text; an exception raised anywhere in the body is caught and becomes an invalid result
  with the text \<^verbatim>\<open>License validation error: ...\<close>; and a malformed key (one that does not
  decode, or lacks the \<open>data\<close>, \<open>signature\<close> or \<open>expires\<close> entry) gets \<open>valid = False\<close> with
  an error text.
\<close>

theorem C10_validate_total:
  "(valid (LicenseValidator_validate_license_key L secret t1 t2 k)
      \<longleftrightarrow> error (LicenseValidator_validate_license_key L secret t1 t2 k) = None)
   \<and> (valid (LicenseManager_validate_license_key L secret h t1 t2 k)
      \<longleftrightarrow> error (LicenseManager_validate_license_key L secret h t1 t2 k) = None)
   \<and> (\<forall>e. LicenseValidator_try L secret t1 t2 k = Inl e \<longrightarrow>
          LicenseValidator_validate_license_key L secret t1 t2 k
            = invalid (''License validation error: '' @ str_exn e))
   \<and> (\<forall>e. LicenseManager_try L secret h t1 t2 k = Inl e \<longrightarrow>
          LicenseManager_validate_license_key L secret h t1 t2 k
            = invalid (''License validation error: '' @ str_exn e))
   \<and> (malformed L k \<longrightarrow>
          \<not> valid (LicenseValidator_validate_license_key L secret t1 t2 k)
          \<and> error (LicenseValidator_validate_license_key L secret t1 t2 k) \<noteq> None
          \<and> \<not> valid (LicenseManager_validate_license_key L secret h t1 t2 k)
          \<and> error (LicenseManager_validate_license_key L secret h t1 t2 k) \<noteq> None)"
proof (intro conjI allI impI)
  show "valid (LicenseValidator_validate_license_key L secret t1 t2 k)
      \<longleftrightarrow> error (LicenseValidator_validate_license_key L secret t1 t2 k) = None"
    by (rule validator_shape)
next
  show "valid (LicenseManager_validate_license_key L secret h t1 t2 k)
      \<longleftrightarrow> error (LicenseManager_validate_license_key L secret h t1 t2 k) = None"
    by (rule manager_shape)
next
  fix e assume "LicenseValidator_try L secret t1 t2 k = Inl e"
  then show "LicenseValidator_validate_license_key L secret t1 t2 k
            = invalid (''License validation error: '' @ str_exn e)"
    by (simp add: LicenseValidator_validate_license_key_def)
next
  fix e assume "LicenseManager_try L secret h t1 t2 k = Inl e"
  then show "LicenseManager_validate_license_key L secret h t1 t2 k
            = invalid (''License validation error: '' @ str_exn e)"
    by (simp add: LicenseManager_validate_license_key_def)
next
  assume m: "malformed L k"
  from validator_malformed [OF m]
  show "\<not> valid (LicenseValidator_validate_license_key L secret t1 t2 k)" .
  with validator_shape [of L secret t1 t2 k]
  show "error (LicenseValidator_validate_license_key L secret t1 t2 k) \<noteq> None" by simp
  from manager_malformed [OF m]
  show "\<not> valid (LicenseManager_validate_license_key L secret h t1 t2 k)" .
  with manager_shape [of L secret h t1 t2 k]
  show "error (LicenseManager_validate_license_key L secret h t1 t2 k) \<noteq> None" by simp
qed

text \<open>
  An input that is not base64 at all: decoding raises, both results are invalid with the
  text of the exception.
\<close>

theorem C10_witness:
  "malformed ref_lib ''not a license key!''
   \<and> LicenseValidator_try ref_lib license_secret 0 0 ''not a license key!''
       = Inl (OtherError ''Incorrect padding'')
   \<and> LicenseManager_try ref_lib license_secret sample_host 0 0 ''not a license key!''
       = Inl (OtherError ''Incorrect padding'')
   \<and> LicenseValidator_validate_license_key ref_lib license_secret 0 0 ''not a license key!''
       = invalid ''License validation error: Incorrect padding''
   \<and> LicenseManager_validate_license_key ref_lib license_secret sample_host 0 0 ''not a license key!''
       = invalid ''License validation error: Incorrect padding''
   \<and> \<not> valid (LicenseValidator_validate_license_key ref_lib license_secret 0 0 ''not a license key!'')
   \<and> \<not> valid (LicenseManager_validate_license_key ref_lib license_secret sample_host 0 0
          ''not a license key!'')"
proof -
  have m: "malformed ref_lib ''not a license key!''"
    by code_simp
  have v: "LicenseValidator_try ref_lib license_secret 0 0 ''not a license key!''
       = Inl (OtherError ''Incorrect padding'')"
    by code_simp
  have g: "LicenseManager_try ref_lib license_secret sample_host 0 0 ''not a license key!''
       = Inl (OtherError ''Incorrect padding'')"
    by code_simp
  from C10_validate_total [of ref_lib license_secret 0 0 "''not a license key!''" sample_host] m v g
  show ?thesis by (simp add: invalid_def)
qed

section \<open>The sample license under the reference library\<close>

lemma sample_generated:
  "LicenseManager_generate_license_key ref_lib license_secret sample_host issue_time
     ''a@b.com'' ''standard'' 365 = Inr sample_key"
  by code_simp

lemma sample_issued:
  "issued_payload ref_lib license_secret sample_host issue_time ''a@b.com'' ''standard'' 365
     = Inr sample_payload"
  by code_simp

lemma sample_decodes: "decode_payload ref_lib sample_key = Inr sample_payload"
  by code_simp

lemma sample_verifies: "signature_check ref_lib license_secret sample_payload = Inr True"
  by code_simp

lemma sample_payload_data: "subscript sample_payload ''data'' = Inr sample_data"
  by code_simp

lemma sample_expires: "subscript sample_data ''expires'' = Inr (JStr ''2026-03-10T12:00:00'')"
  by code_simp

lemma sample_expiry_parsed:
  "fromisoformat_json ref_lib (JStr ''2026-03-10T12:00:00'') = Inr (naive sample_expiry)"
  by code_simp

lemma sample_machine_id: "subscript sample_data ''machine_id'' = Inr (JStr ''9a22927aa30b0e83'')"
  by code_simp

lemma other_machine_id: "get_machine_id ref_lib other_host = Inr ''b7c6e179bc950406''"
  by code_simp

lemma sample_mismatch: "machine_mismatch sample_data ''b7c6e179bc950406''"
  by code_simp

lemma sample_not_expired: "issue_time + 1 \<le> micros (naive sample_expiry)"
  by (simp add: naive_def issue_time_def sample_expiry_def)

lemma tab_key_validator:
  "valid (LicenseValidator_validate_license_key ref_lib license_secret
        (issue_time + 1) (issue_time + 2) tab_key)"
  by code_simp

lemma tab_key_manager:
  "valid (LicenseManager_validate_license_key ref_lib license_secret sample_host
        (issue_time + 1) (issue_time + 2) tab_key)"
  by code_simp

lemma naive_tzoffset: "tzoffset (naive t) = None"
  by (simp add: naive_def)

section \<open>Machine binding\<close>

text \<open>
  C1, as stated: license validation does not enforce the machine-id binding.  False for
  \<^verbatim>\<open>LicenseManager.validate_license_key\<close>: the sample key decodes, its signature verifies
  and its expiry is a year after the reading of the clock, and on a machine with another
  id the manager rejects it.
\<close>

theorem C1_counterexample:
  "decode_payload ref_lib sample_key = Inr sample_payload
   \<and> signature_check ref_lib license_secret sample_payload = Inr True
   \<and> subscript sample_payload ''data'' = Inr sample_data
   \<and> subscript sample_data ''expires'' = Inr (JStr ''2026-03-10T12:00:00'')
   \<and> fromisoformat_json ref_lib (JStr ''2026-03-10T12:00:00'') = Inr (naive sample_expiry)
   \<and> issue_time + 1 \<le> micros (naive sample_expiry)
   \<and> subscript sample_data ''machine_id'' = Inr (JStr ''9a22927aa30b0e83'')
   \<and> get_machine_id ref_lib other_host = Inr ''b7c6e179bc950406''
   \<and> LicenseManager_validate_license_key ref_lib license_secret other_host
        (issue_time + 1) (issue_time + 2) sample_key
       = invalid ''License not valid for this machine''
   \<and> \<not> valid (invalid ''License not valid for this machine'')"
proof -
  have r: "LicenseManager_validate_license_key ref_lib license_secret other_host
        (issue_time + 1) (issue_time + 2) sample_key
       = invalid ''License not valid for this machine''"
    by code_simp
  have n: "\<not> valid (invalid ''License not valid for this machine'')"
    by (simp add: invalid_def)
  show ?thesis
    by (intro conjI sample_decodes sample_verifies sample_payload_data sample_expires
        sample_expiry_parsed sample_not_expired sample_machine_id other_machine_id r n)
qed

text \<open>
  C1, amended: for a key that decodes, whose signature verifies and whose expiry is a
  naive timestamp not before the reading of the clock, \<^verbatim>\<open>LicenseValidator\<close> returns
  \<open>valid = True\<close> whatever machine id the license carries, and \<^verbatim>\<open>LicenseManager\<close> returns
  \<open>valid = False\<close> with \<^verbatim>\<open>License not valid for this machine\<close> when the license carries a
  non-empty machine id other than the id of the current machine, and \<open>valid = True\<close>
  otherwise.
\<close>

theorem C1_machine_binding:
  assumes "decode_payload L k = Inr p"
    and "subscript p ''data'' = Inr d"
    and "signature_check L secret p = Inr True"
    and "subscript d ''expires'' = Inr x"
    and "fromisoformat_json L x = Inr ed"
    and "tzoffset ed = None"
    and "t1 \<le> micros ed"
  shows "valid (LicenseValidator_validate_license_key L secret t1 t2 k)
     \<and> LicenseValidator_validate_license_key L secret t1 t2 k = accepted d (micros ed - t2)
     \<and> (\<forall>cur. get_machine_id L h = Inr cur \<longrightarrow>
          LicenseManager_validate_license_key L secret h t1 t2 k =
            (if machine_mismatch d cur then invalid ''License not valid for this machine''
             else accepted d (micros ed - t2)))"
proof (intro conjI allI impI)
  show v: "LicenseValidator_validate_license_key L secret t1 t2 k = accepted d (micros ed - t2)"
    using assms by (rule validator_accepts)
  then show "valid (LicenseValidator_validate_license_key L secret t1 t2 k)"
    by (simp add: accepted_def)
next
  fix cur assume "get_machine_id L h = Inr cur"
  with assms show "LicenseManager_validate_license_key L secret h t1 t2 k =
            (if machine_mismatch d cur then invalid ''License not valid for this machine''
             else accepted d (micros ed - t2))"
    by (rule manager_checks_machine)
qed

text \<open>
  The sample key on the two machines: the validator accepts it on either, the manager
  accepts it where it was issued and rejects it on the other machine.
\<close>

theorem C1_witness:
  "decode_payload ref_lib sample_key = Inr sample_payload
   \<and> signature_check ref_lib license_secret sample_payload = Inr True
   \<and> get_machine_id ref_lib other_host = Inr ''b7c6e179bc950406''
   \<and> get_machine_id ref_lib sample_host = Inr ''9a22927aa30b0e83''
   \<and> valid (LicenseValidator_validate_license_key ref_lib license_secret
        (issue_time + 1) (issue_time + 2) sample_key)
   \<and> LicenseManager_validate_license_key ref_lib license_secret other_host
        (issue_time + 1) (issue_time + 2) sample_key
       = invalid ''License not valid for this machine''
   \<and> LicenseManager_validate_license_key ref_lib license_secret sample_host
        (issue_time + 1) (issue_time + 2) sample_key
       = accepted sample_data (sample_expiry - (issue_time + 2))"
proof -
  have own: "get_machine_id ref_lib sample_host = Inr ''9a22927aa30b0e83''"
    by code_simp
  have same: "\<not> machine_mismatch sample_data ''9a22927aa30b0e83''"
    by code_simp
  have m: "micros (naive sample_expiry) = sample_expiry"
    by (simp add: naive_def)
  note c = C1_machine_binding [OF sample_decodes sample_payload_data sample_verifies
      sample_expires sample_expiry_parsed naive_tzoffset sample_not_expired,
      where ?t2.0 = "issue_time + 2"]
  from c [where h = other_host] c [where h = sample_host]
    other_machine_id own sample_mismatch same m sample_decodes sample_verifies
  show ?thesis by simp
qed

section \<open>Altered keys\<close>

text \<open>
  C9, as stated: altering any single character of a generated key gives
  \<open>valid = False\<close> with a signature-mismatch reason.  False: the sample key is the key
  \<^verbatim>\<open>generate_license_key\<close> returns; with its character 11 altered from \<open>g\<close> to \<open>J\<close> the
  payload has a tab where it had a space, decodes to the same data and signature, and
  is accepted by both classes; with its character 0 altered from \<open>e\<close> to \<open>A\<close> the payload
  is no JSON, and the reason is a validation error, not a signature mismatch.
\<close>

theorem C9_counterexample:
  "LicenseManager_generate_license_key ref_lib license_secret sample_host issue_time
     ''a@b.com'' ''standard'' 365 = Inr sample_key
   \<and> tab_key \<noteq> sample_key
   \<and> tab_key = take 11 sample_key @ ''J'' @ drop 12 sample_key
   \<and> valid (LicenseValidator_validate_license_key ref_lib license_secret
        (issue_time + 1) (issue_time + 2) tab_key)
   \<and> valid (LicenseManager_validate_license_key ref_lib license_secret sample_host
        (issue_time + 1) (issue_time + 2) tab_key)
   \<and> garbled_key \<noteq> sample_key
   \<and> garbled_key = ''A'' @ drop 1 sample_key
   \<and> LicenseValidator_validate_license_key ref_lib license_secret
        (issue_time + 1) (issue_time + 2) garbled_key
       = invalid ''License validation error: Expecting value''
   \<and> LicenseManager_validate_license_key ref_lib license_secret sample_host
        (issue_time + 1) (issue_time + 2) garbled_key
       = invalid ''License validation error: Expecting value''"
proof -
  have t1: "tab_key \<noteq> sample_key" by code_simp
  have t2: "tab_key = take 11 sample_key @ ''J'' @ drop 12 sample_key" by code_simp
  note t3 = tab_key_validator
  note t4 = tab_key_manager
  have g1: "garbled_key \<noteq> sample_key" by code_simp
  have g2: "garbled_key = ''A'' @ drop 1 sample_key" by code_simp
  have g3: "LicenseValidator_validate_license_key ref_lib license_secret
        (issue_time + 1) (issue_time + 2) garbled_key
       = invalid ''License validation error: Expecting value''" by code_simp
  have g4: "LicenseManager_validate_license_key ref_lib license_secret sample_host
        (issue_time + 1) (issue_time + 2) garbled_key
       = invalid ''License validation error: Expecting value''" by code_simp
  show ?thesis
    by (intro conjI sample_generated t1 t2 t3 t4 g1 g2 g3 g4)
qed

text \<open>
  C9, amended: a key, altered or not, is accepted only if it decodes to a payload whose
  signature verifies; a key that decodes to a payload whose signature entry differs from
  the HMAC of its data gets \<open>valid = False\<close> with \<^verbatim>\<open>Invalid license signature\<close>; a key
  that does not decode gets \<open>valid = False\<close> with \<^verbatim>\<open>License validation error: ...\<close>.
\<close>

theorem C9_altered_key:
  "(valid (LicenseValidator_validate_license_key L secret t1 t2 k) \<longrightarrow>
      (\<exists>p. decode_payload L k = Inr p \<and> signature_check L secret p = Inr True))
   \<and> (valid (LicenseManager_validate_license_key L secret h t1 t2 k) \<longrightarrow>
      (\<exists>p. decode_payload L k = Inr p \<and> signature_check L secret p = Inr True))
   \<and> (\<forall>p. decode_payload L k = Inr p \<and> signature_check L secret p = Inr False \<longrightarrow>
        LicenseValidator_validate_license_key L secret t1 t2 k = invalid ''Invalid license signature''
        \<and> LicenseManager_validate_license_key L secret h t1 t2 k = invalid ''Invalid license signature'')
   \<and> (\<forall>e. decode_payload L k = Inl e \<longrightarrow>
        LicenseValidator_validate_license_key L secret t1 t2 k
          = invalid (''License validation error: '' @ str_exn e)
        \<and> LicenseManager_validate_license_key L secret h t1 t2 k
          = invalid (''License validation error: '' @ str_exn e))"
proof (intro conjI allI impI)
  assume "valid (LicenseValidator_validate_license_key L secret t1 t2 k)"
  then show "\<exists>p. decode_payload L k = Inr p \<and> signature_check L secret p = Inr True"
    by (rule validator_valid_verified)
next
  assume "valid (LicenseManager_validate_license_key L secret h t1 t2 k)"
  then show "\<exists>p. decode_payload L k = Inr p \<and> signature_check L secret p = Inr True"
    by (rule manager_valid_verified)
next
  fix p assume a: "decode_payload L k = Inr p \<and> signature_check L secret p = Inr False"
  then show "LicenseValidator_validate_license_key L secret t1 t2 k = invalid ''Invalid license signature''"
    by (simp add: validator_mismatch)
  from a show "LicenseManager_validate_license_key L secret h t1 t2 k = invalid ''Invalid license signature''"
    by (simp add: manager_mismatch)
next
  fix e assume a: "decode_payload L k = Inl e"
  then show "LicenseValidator_validate_license_key L secret t1 t2 k
          = invalid (''License validation error: '' @ str_exn e)"
    by (rule validator_undecodable)
  from a show "LicenseManager_validate_license_key L secret h t1 t2 k
          = invalid (''License validation error: '' @ str_exn e)"
    by (rule manager_undecodable)
qed

text \<open>
  Three alterations of the sample key: the one that is accepted decodes to the payload
  that was signed; the one in the signature is a signature mismatch; the one that
  breaks the JSON is a validation error.
\<close>

theorem C9_witness:
  "valid (LicenseValidator_validate_license_key ref_lib license_secret
        (issue_time + 1) (issue_time + 2) tab_key)
   \<and> valid (LicenseManager_validate_license_key ref_lib license_secret sample_host
        (issue_time + 1) (issue_time + 2) tab_key)
   \<and> decode_payload ref_lib tab_key = Inr sample_payload
   \<and> signature_check ref_lib license_secret sample_payload = Inr True
   \<and> forged_key = take 544 sample_key @ ''M'' @ drop 545 sample_key
   \<and> signature_check ref_lib license_secret
        (JObj [(''data'', sample_data), (''signature'',
           JStr ''d5615130769eb6660185dd5bb636b1b35e52e063b928786b1a6df216ec775a37'')]) = Inr False
   \<and> LicenseValidator_validate_license_key ref_lib license_secret
        (issue_time + 1) (issue_time + 2) forged_key = invalid ''Invalid license signature''
   \<and> LicenseManager_validate_license_key ref_lib license_secret sample_host
        (issue_time + 1) (issue_time + 2) forged_key = invalid ''Invalid license signature''
   \<and> decode_payload ref_lib garbled_key = Inl (ValueError ''Expecting value'')
   \<and> LicenseValidator_validate_license_key ref_lib license_secret
        (issue_time + 1) (issue_time + 2) garbled_key
       = invalid ''License validation error: Expecting value''
   \<and> LicenseManager_validate_license_key ref_lib license_secret sample_host
        (issue_time + 1) (issue_time + 2) garbled_key
       = invalid ''License validation error: Expecting value''"
proof -
  let ?forged = "JObj [(''data'', sample_data), (''signature'',
           JStr ''d5615130769eb6660185dd5bb636b1b35e52e063b928786b1a6df216ec775a37'')]"
  note t3 = tab_key_validator
  note t4 = tab_key_manager
  have t5: "decode_payload ref_lib tab_key = Inr sample_payload" by code_simp
  have f1: "forged_key = take 544 sample_key @ ''M'' @ drop 545 sample_key" by code_simp
  have f2: "decode_payload ref_lib forged_key = Inr ?forged" by code_simp
  have f3: "signature_check ref_lib license_secret ?forged = Inr False" by code_simp
  have g1: "decode_payload ref_lib garbled_key = Inl (ValueError ''Expecting value'')" by code_simp
  note tab = C9_altered_key [of ref_lib license_secret "issue_time + 1" "issue_time + 2"
      tab_key sample_host]
  note forged = C9_altered_key [of ref_lib license_secret "issue_time + 1" "issue_time + 2"
      forged_key sample_host]
  note garbled = C9_altered_key [of ref_lib license_secret "issue_time + 1" "issue_time + 2"
      garbled_key sample_host]
  from tab t3 t4 t5 have a: "signature_check ref_lib license_secret sample_payload = Inr True"
    by simp
  from forged f2 f3 have b: "LicenseValidator_validate_license_key ref_lib license_secret
        (issue_time + 1) (issue_time + 2) forged_key = invalid ''Invalid license signature''
     \<and> LicenseManager_validate_license_key ref_lib license_secret sample_host
        (issue_time + 1) (issue_time + 2) forged_key = invalid ''Invalid license signature''"
    by simp
  from garbled g1 have c: "LicenseValidator_validate_license_key ref_lib license_secret
        (issue_time + 1) (issue_time + 2) garbled_key
       = invalid ''License validation error: Expecting value''
     \<and> LicenseManager_validate_license_key ref_lib license_secret sample_host
        (issue_time + 1) (issue_time + 2) garbled_key
       = invalid ''License validation error: Expecting value''"
    by simp
  from t3 t4 t5 a f1 f3 b c g1 show ?thesis by blast
qed

section \<open>License round trip\<close>

lemma try_bind_Inr: "try_bind (Inr x) f = f x"
  by (simp add: try_bind_def)

lemma generate_factored:
  "LicenseManager_generate_license_key L secret h t0 user_email license_type days_valid =
     try_bind (issued_payload L secret h t0 user_email license_type days_valid) (encode_payload L)"
  unfolding LicenseManager_generate_license_key_def issued_payload_def encode_payload_def
  by (simp only: Let_def try_bind_assoc try_bind_Inr)

lemma issued_payload_cases:
  assumes "issued_payload L secret h t0 user_email license_type days_valid = Inr p"
  obtains expiry machine_id data_string secret_bytes data_bytes where
    "add_days t0 days_valid = Inr expiry"
    "get_machine_id L h = Inr machine_id"
    "json_dumps L True (license_data L user_email license_type expiry machine_id) = Inr data_string"
    "str_encode L secret = Inr secret_bytes"
    "str_encode L data_string = Inr data_bytes"
    "p = JObj [(''data'', license_data L user_email license_type expiry machine_id),
               (''signature'', JStr (hmac_sha256_hexdigest L secret_bytes data_bytes))]"
  using assms unfolding issued_payload_def try_bind_def
  by (auto split: sum.splits)

lemma days_of_year:
  assumes "364 * 86400000000 \<le> d" "d \<le> 365 * 86400000000"
  shows "days d = 364 \<or> days d = 365"
proof -
  from assms have "364 \<le> d div 86400000000" "d div 86400000000 \<le> 365"
    by arith+
  then show ?thesis
    unfolding days_def by arith
qed

text \<open>
  C4: generating a standard license for 365 days and validating the key at once on the
  same machine gives \<open>valid = True\<close>, data of type \<^verbatim>\<open>standard\<close> and 364 or 365 remaining
  days, for every email.  The library is a parameter: decoding the key gives back the
  payload that was encoded, \<^verbatim>\<open>fromisoformat\<close> reads back what \<^verbatim>\<open>isoformat\<close> wrote, and a hex
  digest is ASCII.  At once: the two readings of the clock in the validation are not
  before the one in the generation, and within a day of it.
\<close>

theorem C4_license_round_trip:
  assumes gen: "LicenseManager_generate_license_key L secret h t0 user_email ''standard'' 365 = Inr k"
    and round_trip: "decode_payload L k = issued_payload L secret h t0 user_email ''standard'' 365"
    and iso: "fromisoformat L (isoformat L (naive (t0 + 365 * 86400000000)))
                = Inr (naive (t0 + 365 * 86400000000))"
    and hex: "\<And>key msg. list_all is_ascii (hmac_sha256_hexdigest L key msg)"
    and clock: "t0 \<le> t1" "t1 \<le> t2" "t2 \<le> t0 + 86400000000"
  shows "valid (LicenseManager_validate_license_key L secret h t1 t2 k)
     \<and> (\<exists>d. license (LicenseManager_validate_license_key L secret h t1 t2 k) = Some d
            \<and> subscript d ''type'' = Inr (JStr ''standard''))
     \<and> (days_remaining (LicenseManager_validate_license_key L secret h t1 t2 k) = Some 364
          \<or> days_remaining (LicenseManager_validate_license_key L secret h t1 t2 k) = Some 365)"
proof -
  let ?e = "t0 + 365 * 86400000000"
  from gen obtain p where p: "issued_payload L secret h t0 user_email ''standard'' 365 = Inr p"
    unfolding generate_factored by (cases "issued_payload L secret h t0 user_email ''standard'' 365")
      (simp_all add: try_bind_def)
  from p obtain expiry machine_id data_string secret_bytes data_bytes where
    f: "add_days t0 365 = Inr expiry"
      "get_machine_id L h = Inr machine_id"
      "json_dumps L True (license_data L user_email ''standard'' expiry machine_id) = Inr data_string"
      "str_encode L secret = Inr secret_bytes"
      "str_encode L data_string = Inr data_bytes"
      "p = JObj [(''data'', license_data L user_email ''standard'' expiry machine_id),
                 (''signature'', JStr (hmac_sha256_hexdigest L secret_bytes data_bytes))]"
    by (rule issued_payload_cases)
  let ?d = "license_data L user_email ''standard'' expiry machine_id"
  from f(1) have e: "expiry = ?e"
    by (simp add: add_days_def split: if_splits)
  have dec: "decode_payload L k = Inr p"
    using round_trip p by simp
  have d: "subscript p ''data'' = Inr ?d"
    by (simp add: f(6) subscript_def)
  have s: "signature_check L secret p = Inr True"
    using f(3,4,5) hex [of secret_bytes data_bytes]
    by (simp add: signature_check_def f(6) subscript_def try_bind_def compare_digest_def)
  have x: "subscript ?d ''expires'' = Inr (JStr (isoformat L (naive expiry)))"
    by (simp add: license_data_def subscript_def)
  have ed: "fromisoformat_json L (JStr (isoformat L (naive expiry))) = Inr (naive ?e)"
    using iso by (simp add: fromisoformat_json_def e)
  have tz: "tzoffset (naive ?e) = None"
    by (simp add: naive_def)
  have le: "t1 \<le> micros (naive ?e)"
    using clock by (simp add: naive_def)
  have mm: "\<not> machine_mismatch ?d machine_id"
    by (simp add: machine_mismatch_def license_data_def subscript_def)
  have r: "LicenseManager_validate_license_key L secret h t1 t2 k = accepted ?d (micros (naive ?e) - t2)"
    using manager_checks_machine [OF dec d s x ed tz le f(2), of t2] mm by simp
  have ty: "subscript ?d ''type'' = Inr (JStr ''standard'')"
    by (simp add: license_data_def subscript_def)
  have "days (micros (naive ?e) - t2) = 364 \<or> days (micros (naive ?e) - t2) = 365"
    using clock by (intro days_of_year) (simp_all add: naive_def)
  with ty show ?thesis
    unfolding r by (simp add: accepted_def)
qed

text \<open>
  The sample license under the reference library, validated one and two microseconds
  after it was issued: 364 days remain.
\<close>

theorem C4_witness:
  "LicenseManager_generate_license_key ref_lib license_secret sample_host issue_time
     ''a@b.com'' ''standard'' 365 = Inr sample_key
   \<and> decode_payload ref_lib sample_key
       = issued_payload ref_lib license_secret sample_host issue_time ''a@b.com'' ''standard'' 365
   \<and> valid (LicenseManager_validate_license_key ref_lib license_secret sample_host
        (issue_time + 1) (issue_time + 2) sample_key)
   \<and> license (LicenseManager_validate_license_key ref_lib license_secret sample_host
        (issue_time + 1) (issue_time + 2) sample_key) = Some sample_data
   \<and> subscript sample_data ''type'' = Inr (JStr ''standard'')
   \<and> days_remaining (LicenseManager_validate_license_key ref_lib license_secret sample_host
        (issue_time + 1) (issue_time + 2) sample_key) = Some 364"
proof -
  have rt: "decode_payload ref_lib sample_key
       = issued_payload ref_lib license_secret sample_host issue_time ''a@b.com'' ''standard'' 365"
    by (simp only: sample_decodes sample_issued)
  have iso: "fromisoformat ref_lib (isoformat ref_lib (naive (issue_time + 365 * 86400000000)))
                = Inr (naive (issue_time + 365 * 86400000000))"
    by code_simp
  have hex: "\<And>key msg. list_all is_ascii (hmac_sha256_hexdigest ref_lib key msg)"
    by (simp add: ref_lib_def hmac_sha256_hexdigest_ref_def sample_signature_def is_ascii_def)
  have l: "license (LicenseManager_validate_license_key ref_lib license_secret sample_host
        (issue_time + 1) (issue_time + 2) sample_key) = Some sample_data"
    by code_simp
  have ty: "subscript sample_data ''type'' = Inr (JStr ''standard'')"
    by code_simp
  have n: "days_remaining (LicenseManager_validate_license_key ref_lib license_secret sample_host
        (issue_time + 1) (issue_time + 2) sample_key) \<noteq> Some 365"
    by code_simp
  from C4_license_round_trip [OF sample_generated rt iso hex, of "issue_time + 1" "issue_time + 2"]
    sample_generated rt l ty n
  show ?thesis by simp
qed

(*THMS_END*)

end
